theory Spec2Isabelle
  imports Complex_Main
begin

section \<open>The synthetic data generator of Construction Check (generate\_data\_v2.py)\<close>

text \<open>
  The theory embeds the estimate generation core of
  \<^verbatim>\<open>src/data/generators/generate_data_v2.py\<close>: the AACE class table, the regional
  cost multipliers, the budget computation of \<^verbatim>\<open>generate_projects\<close>, the loop of
  \<^verbatim>\<open>generate_progressive_estimates\<close> and the independent-bids branch of
  \<^verbatim>\<open>generate_estimates\<close>.

  Conventions of the embedding.
  \<^item> A Python \<^verbatim>\<open>float\<close> is a \<^typ>\<open>real\<close>: arithmetic is exact, and
    \<^verbatim>\<open>round(x, 2)\<close> gives the nearest multiple of 0.01. Where the exact value is
    halfway between two such multiples, the double that Python rounds lies on one side
    of the half; which side is the last argument \<open>ties\<close> of every function that
    rounds. The theorems hold for every \<open>ties\<close>.
  \<^item> A Python \<^verbatim>\<open>int\<close> is an \<^typ>\<open>int\<close>; a loop index of \<^verbatim>\<open>range\<close> is a \<^typ>\<open>nat\<close>.
  \<^item> The source draws from the process-wide generator of the \<^verbatim>\<open>random\<close> module, from
    \<^verbatim>\<open>uuid.uuid4()\<close>, from \<^verbatim>\<open>np.random\<close> and from Faker. None of these libraries is
    part of the repository, so the value each call returns is an input of the model: a
    record of draws per loop iteration. The ranges the libraries promise are collected
    in the \<open>valid_\<dots>\<close> predicates.
  \<^item> An exception is a value \<open>Inl e\<close> of the result type.
  \<^item> A dictionary row written to SQLite is a record; the table is the list of rows in
    insertion order. An estimate has all twenty columns of the source. Of a project
    the columns that the budget computation writes or that the generation of estimates
    reads are kept; of a business and of an estimator, the identifier.
  \<^item> A \<^verbatim>\<open>datetime\<close> is a day number with the microseconds since midnight;
    \<^verbatim>\<open>isoformat\<close>/\<^verbatim>\<open>fromisoformat\<close> are inverse renderings of it and are not modelled.
\<close>

subsection \<open>Library functions\<close>

datatype py_error = IndexError | KeyError | ValueError

text \<open>
  Rounding to the nearest integer. Python rounds the binary double, not the decimal
  number it stands for: a value that is exactly halfway between two integers in
  decimal is stored slightly above or slightly below the half, and goes up or down
  accordingly. The exact model does not have the double, so the direction taken at an
  exact half is an input: \<open>ties y\<close> holds when the half \<open>y\<close> is rounded up.
\<close>

definition round_nearest :: "real \<Rightarrow> (real \<Rightarrow> bool) \<Rightarrow> int" where
  "round_nearest y ties =
     (let f = \<lfloor>y\<rfloor>; d = y - of_int f
      in if d < 1/2 then f else if 1/2 < d then f + 1 else if ties y then f + 1 else f)"

text \<open>
  \<^verbatim>\<open>round(x, ndigits)\<close> on a float, for \<^verbatim>\<open>ndigits >= 0\<close>: the nearest multiple of
  \<open>10 ^ -ndigits\<close>, with the direction \<open>ties\<close> at an exact half.
\<close>

definition py_round :: "real \<Rightarrow> nat \<Rightarrow> (real \<Rightarrow> bool) \<Rightarrow> real" where
  "py_round x ndigits ties = of_int (round_nearest (x * 10 ^ ndigits) ties) / 10 ^ ndigits"

text \<open>
  \<^verbatim>\<open>random.uniform(a, b)\<close> is \<^verbatim>\<open>a + (b-a) * self.random()\<close>; the third argument is
  the value of \<^verbatim>\<open>random()\<close>, a number of the unit interval.
\<close>

definition uniform :: "real \<Rightarrow> real \<Rightarrow> real \<Rightarrow> real" where
  "uniform a b u = a + (b - a) * u"

definition unit_draw :: "real \<Rightarrow> bool" where
  "unit_draw u \<longleftrightarrow> 0 \<le> u \<and> u \<le> 1"

text \<open>
  \<^verbatim>\<open>random.choice(seq)\<close> raises \<^verbatim>\<open>IndexError\<close> on an empty sequence and picks a
  position below the length otherwise; the second argument is that position.
\<close>

definition choice :: "'a list \<Rightarrow> nat \<Rightarrow> py_error + 'a" where
  "choice xs i = (if i < length xs then Inr (xs ! i) else Inl IndexError)"

text \<open>
  \<^verbatim>\<open>random.sample(population, k)\<close> raises \<^verbatim>\<open>ValueError\<close> when \<open>k\<close> is negative or
  larger than the population; the third argument lists the \<open>k\<close> distinct positions
  the generator picks.
\<close>

definition sample :: "'a list \<Rightarrow> int \<Rightarrow> nat list \<Rightarrow> py_error + 'a list" where
  "sample population k idxs =
     (if k < 0 \<or> int (length population) < k then Inl ValueError
      else if int (length idxs) = k \<and> distinct idxs \<and> list_all (\<lambda>i. i < length population) idxs
        then Inr (map (\<lambda>i. population ! i) idxs)
      else Inl ValueError)"

text \<open>A loop whose body may raise: the first exception ends it.\<close>

fun collect :: "('e + 'a) list \<Rightarrow> 'e + 'a list" where
  "collect [] = Inr []"
| "collect (Inl e # rs) = Inl e"
| "collect (Inr x # rs) = (case collect rs of Inl e \<Rightarrow> Inl e | Inr xs \<Rightarrow> Inr (x # xs))"

record datetime =
  ordinal :: int
  micros :: nat

text \<open>\<^verbatim>\<open>dt + timedelta(days=d)\<close>.\<close>

definition add_days :: "datetime \<Rightarrow> int \<Rightarrow> datetime" where
  "add_days dt d = dt\<lparr>ordinal := ordinal dt + d\<rparr>"

text \<open>\<^verbatim>\<open>a < b\<close> on two datetimes.\<close>

definition dt_less :: "datetime \<Rightarrow> datetime \<Rightarrow> bool" where
  "dt_less a b \<longleftrightarrow> ordinal a < ordinal b \<or> (ordinal a = ordinal b \<and> micros a < micros b)"

text \<open>\<^verbatim>\<open>(b - a).days\<close> for two datetimes with the same time of day.\<close>

definition days_between :: "datetime \<Rightarrow> datetime \<Rightarrow> int" where
  "days_between a b = ordinal b - ordinal a"

subsection \<open>Configuration\<close>

definition PROGRESSIVE_ESTIMATE_RATE :: real where
  "PROGRESSIVE_ESTIMATE_RATE = 0.40"

definition MAX_PROGRESSIVE_ESTIMATES :: int where
  "MAX_PROGRESSIVE_ESTIMATES = 5"

record class_info =
  name :: string
  confidence_low :: int
  confidence_high :: int
  typical_contingency :: real
  engineering_completion :: int
  preparation_effort :: string
  end_use :: string

definition AACE_CLASSES :: "(string \<times> class_info) list" where
  "AACE_CLASSES =
    [(''class_5'', \<lparr>name = ''Class 5 - Conceptual'', confidence_low = -50,
        confidence_high = 100, typical_contingency = 20.0, engineering_completion = 2,
        preparation_effort = ''minimal'', end_use = ''Screening/Feasibility''\<rparr>),
     (''class_4'', \<lparr>name = ''Class 4 - Study/Feasibility'', confidence_low = -30,
        confidence_high = 50, typical_contingency = 15.0, engineering_completion = 10,
        preparation_effort = ''low'', end_use = ''Concept Study/Feasibility''\<rparr>),
     (''class_3'', \<lparr>name = ''Class 3 - Budget/Authorization'', confidence_low = -20,
        confidence_high = 30, typical_contingency = 12.0, engineering_completion = 30,
        preparation_effort = ''medium'', end_use = ''Budget/Authorization/Control''\<rparr>),
     (''class_2'', \<lparr>name = ''Class 2 - Control/Bid'', confidence_low = -15,
        confidence_high = 20, typical_contingency = 8.0, engineering_completion = 65,
        preparation_effort = ''high'', end_use = ''Control/Bid/Tender''\<rparr>),
     (''class_1'', \<lparr>name = ''Class 1 - Check/Bid'', confidence_low = -10,
        confidence_high = 15, typical_contingency = 5.0, engineering_completion = 95,
        preparation_effort = ''very_high'', end_use = ''Check Estimate/Bid/Control''\<rparr>)]"

text \<open>\<^verbatim>\<open>AACE_CLASSES[key]\<close>.\<close>

definition aace_lookup :: "string \<Rightarrow> py_error + class_info" where
  "aace_lookup key = (case map_of AACE_CLASSES key of None \<Rightarrow> Inl KeyError | Some c \<Rightarrow> Inr c)"

definition REGIONAL_COST_MULTIPLIERS :: "(string \<times> real) list" where
  "REGIONAL_COST_MULTIPLIERS =
    [(''NY'', 1.35), (''CA'', 1.30), (''MA'', 1.25), (''WA'', 1.20), (''HI'', 2.00),
     (''IL'', 1.15), (''CO'', 1.12), (''OR'', 1.10), (''PA'', 1.08), (''MN'', 1.50),
     (''TX'', 1.00), (''FL'', 1.00), (''NC'', 0.98), (''GA'', 0.97), (''AZ'', 0.96),
     (''TN'', 0.92), (''OH'', 0.90), (''IN'', 0.88), (''NV'', 0.95), (''MI'', 0.93)]"

definition ESTIMATION_METHODS :: "string list" where
  "ESTIMATION_METHODS = [''parametric'', ''analogical'', ''engineering'', ''detailed_takeoff'']"

definition MAJOR_CITIES :: "(string \<times> string) list" where
  "MAJOR_CITIES =
    [(''New York'', ''NY''), (''Los Angeles'', ''CA''), (''Chicago'', ''IL''),
     (''Houston'', ''TX''), (''Phoenix'', ''AZ''), (''Philadelphia'', ''PA''),
     (''San Antonio'', ''TX''), (''San Diego'', ''CA''), (''Dallas'', ''TX''),
     (''Austin'', ''TX''), (''Jacksonville'', ''FL''), (''San Jose'', ''CA''),
     (''Fort Worth'', ''TX''), (''Columbus'', ''OH''), (''Charlotte'', ''NC''),
     (''Indianapolis'', ''IN''), (''Seattle'', ''WA''), (''Denver'', ''CO''),
     (''Boston'', ''MA''), (''Portland'', ''OR''), (''Atlanta'', ''GA''),
     (''Miami'', ''FL''), (''Las Vegas'', ''NV''), (''Detroit'', ''MI''),
     (''Nashville'', ''TN''), (''Minneapolis'', ''MN''), (''Tampa'', ''FL'')]"

text \<open>\<^verbatim>\<open>REGIONAL_COST_MULTIPLIERS.get(state, 1.0)\<close>.\<close>

definition get_regional_multiplier :: "string \<Rightarrow> real" where
  "get_regional_multiplier state =
     (case map_of REGIONAL_COST_MULTIPLIERS state of None \<Rightarrow> 1.0 | Some m \<Rightarrow> m)"

subsection \<open>Projects\<close>

record business =
  business_id :: string

record project =
  project_id :: string
  project_business_id :: string
  project_city :: string
  project_state :: string
  regional_cost_multiplier :: real
  estimated_budget_min :: real
  estimated_budget_max :: real
  posted_date :: datetime

text \<open>
  The values drawn in one iteration of the loop of \<^verbatim>\<open>generate_projects\<close>:
  \<^verbatim>\<open>random.choice(businesses)\<close>, \<^verbatim>\<open>random.choice(MAJOR_CITIES)\<close>,
  \<^verbatim>\<open>fake.date_time_between(...)\<close>, \<^verbatim>\<open>np.random.lognormal(13, 1.2)\<close> and
  \<^verbatim>\<open>str(uuid.uuid4())\<close>.
\<close>

record project_draws =
  pj_business :: nat
  pj_city :: nat
  pj_posted_date :: datetime
  pj_lognormal :: real
  pj_uuid :: string

text \<open>A log-normal variate is positive; the positions are inside their lists.\<close>

definition valid_project_draws :: "business list \<Rightarrow> project_draws \<Rightarrow> bool" where
  "valid_project_draws businesses d \<longleftrightarrow>
     pj_business d < length businesses \<and> pj_city d < length MAJOR_CITIES \<and> 0 < pj_lognormal d"

text \<open>
  What the generator behind \<^verbatim>\<open>np.random.lognormal(13, 1.2)\<close> can return. The variate
  is \<open>exp (13 + 1.2 * z)\<close> for a standard normal \<open>z\<close>, which the generator seeded by
  \<^verbatim>\<open>np.random.seed\<close> draws by the polar method from two uniform doubles of 53 bits:
  \<open>z\<^sup>2\<close> is at most \<open>208 * ln 2\<close>, so \<open>z\<close> is above \<open>-12.01\<close> and the variate
  above \<open>exp (- 1.412)\<close>, which is more than 0.24.
\<close>

definition LOGNORMAL_MIN :: real where
  "LOGNORMAL_MIN = 0.24"

definition generator_project_draws :: "business list \<Rightarrow> project_draws \<Rightarrow> bool" where
  "generator_project_draws businesses d \<longleftrightarrow>
     valid_project_draws businesses d \<and> LOGNORMAL_MIN \<le> pj_lognormal d"

text \<open>
  The body of the loop of \<^verbatim>\<open>generate_projects\<close> (lines 645 to 689), for the columns
  above.
\<close>

definition generate_project ::
  "business list \<Rightarrow> project_draws \<Rightarrow> (real \<Rightarrow> bool) \<Rightarrow> py_error + project" where
  "generate_project businesses d ties =
     (case choice businesses (pj_business d) of
        Inl e \<Rightarrow> Inl e
      | Inr business \<Rightarrow>
         (case choice MAJOR_CITIES (pj_city d) of
            Inl e \<Rightarrow> Inl e
          | Inr (city, state) \<Rightarrow>
             (let base_budget = pj_lognormal d;
                  regional_multiplier = get_regional_multiplier state;
                  adjusted_budget = base_budget * regional_multiplier;
                  budget_min = py_round (adjusted_budget * 0.8) 2 ties;
                  budget_max = py_round (adjusted_budget * 1.2) 2 ties
              in Inr \<lparr>project_id = pj_uuid d,
                      project_business_id = business_id business,
                      project_city = city,
                      project_state = state,
                      regional_cost_multiplier = regional_multiplier,
                      estimated_budget_min = budget_min,
                      estimated_budget_max = budget_max,
                      posted_date = pj_posted_date d\<rparr>)))"

text \<open>\<^verbatim>\<open>generate_projects\<close>: one project per iteration, in order.\<close>

definition generate_projects ::
  "business list \<Rightarrow> nat \<Rightarrow> (nat \<Rightarrow> project_draws) \<Rightarrow> (real \<Rightarrow> bool) \<Rightarrow>
     py_error + project list" where
  "generate_projects businesses num_projects draws ties =
     collect (map (\<lambda>i. generate_project businesses (draws i) ties) [0..<num_projects])"

subsection \<open>Estimates\<close>

record estimator =
  estimator_id :: string

record estimate =
  estimate_id :: string
  estimate_project_id :: string
  estimate_estimator_id :: string
  estimate_sequence :: int
  aace_class :: string
  engineering_completion_percent :: int
  estimated_total_cost :: real
  confidence_interval_low :: real
  confidence_interval_high :: real
  labor_cost :: real
  materials_cost :: real
  equipment_cost :: real
  subcontractor_cost :: real
  overhead_cost :: real
  profit_margin :: real
  contingency_percent :: real
  estimated_duration_days :: int
  estimation_method :: string
  status :: string
  submitted_date :: datetime

text \<open>
  The values drawn in one iteration of the loop of
  \<^verbatim>\<open>generate_progressive_estimates\<close>, in the order of the calls: the \<^verbatim>\<open>random()\<close>
  behind each \<^verbatim>\<open>random.uniform\<close>, the result of each \<^verbatim>\<open>random.randint\<close>, and the
  string of \<^verbatim>\<open>uuid.uuid4()\<close>.
\<close>

record step_draws =
  sd_variance :: real
  sd_days :: int
  sd_engineering :: int
  sd_contingency :: real
  sd_labor :: real
  sd_materials :: real
  sd_equipment :: real
  sd_subcontractor :: real
  sd_overhead :: real
  sd_profit :: real
  sd_uuid :: string
  sd_duration :: int

definition valid_step_draws :: "step_draws \<Rightarrow> bool" where
  "valid_step_draws d \<longleftrightarrow>
     unit_draw (sd_variance d) \<and> 7 \<le> sd_days d \<and> sd_days d \<le> 21 \<and>
     -5 \<le> sd_engineering d \<and> sd_engineering d \<le> 10 \<and> unit_draw (sd_contingency d) \<and>
     unit_draw (sd_labor d) \<and> unit_draw (sd_materials d) \<and> unit_draw (sd_equipment d) \<and>
     unit_draw (sd_subcontractor d) \<and> unit_draw (sd_overhead d) \<and> unit_draw (sd_profit d) \<and>
     30 \<le> sd_duration d \<and> sd_duration d \<le> 720"

text \<open>
  The values drawn by one call of \<^verbatim>\<open>generate_progressive_estimates\<close>: the position
  of \<^verbatim>\<open>random.choice(estimators)\<close>, the result of
  \<^verbatim>\<open>random.randint(2, MAX_PROGRESSIVE_ESTIMATES)\<close>, and the draws of iteration \<open>seq\<close>.
\<close>

record prog_draws =
  pd_estimator :: nat
  pd_num_estimates :: int
  pd_steps :: "nat \<Rightarrow> step_draws"

definition valid_prog_draws :: "estimator list \<Rightarrow> prog_draws \<Rightarrow> bool" where
  "valid_prog_draws estimators pd \<longleftrightarrow>
     pd_estimator pd < length estimators \<and>
     2 \<le> pd_num_estimates pd \<and> pd_num_estimates pd \<le> MAX_PROGRESSIVE_ESTIMATES \<and>
     list_all (\<lambda>seq. valid_step_draws (pd_steps pd seq)) [0..<nat (pd_num_estimates pd)]"

definition class_progression :: "string list" where
  "class_progression = [''class_5'', ''class_4'', ''class_3'', ''class_2'', ''class_1'']"

text \<open>
  \<^verbatim>\<open>base_cost = (project['estimated_budget_min'] + project['estimated_budget_max']) / 2\<close>
\<close>

definition base_cost_of :: "project \<Rightarrow> real" where
  "base_cost_of project = (estimated_budget_min project + estimated_budget_max project) / 2"

text \<open>
  The body of the loop of \<^verbatim>\<open>generate_progressive_estimates\<close> (lines 736 to 789): the
  row inserted at index \<open>seq\<close>.
\<close>

definition progressive_estimate ::
  "project \<Rightarrow> estimator \<Rightarrow> int \<Rightarrow> nat \<Rightarrow> step_draws \<Rightarrow> (real \<Rightarrow> bool) \<Rightarrow>
     py_error + estimate" where
  "progressive_estimate project estimator num_estimates seq d ties =
     (let base_cost = base_cost_of project;
          posted_date' = posted_date project;
          class_index = min seq (length class_progression - 1)
      in case choice class_progression class_index of
           Inl e \<Rightarrow> Inl e
         | Inr aace_class' \<Rightarrow>
            (case aace_lookup aace_class' of
               Inl e \<Rightarrow> Inl e
             | Inr class_info \<Rightarrow>
                (let variance_low = real_of_int (confidence_low class_info) / 100.0;
                     variance_high = real_of_int (confidence_high class_info) / 100.0;
                     variance = uniform variance_low variance_high (sd_variance d);
                     estimated_cost = base_cost * (1 + variance);
                     days_offset = int seq * sd_days d;
                     submitted_date' = add_days posted_date' days_offset;
                     engineering_pct = engineering_completion class_info + sd_engineering d;
                     engineering_pct = max 0 (min 100 engineering_pct);
                     contingency_pct =
                       typical_contingency class_info + uniform (-2) 2 (sd_contingency d);
                     labor = estimated_cost * uniform 0.3 0.45 (sd_labor d);
                     materials = estimated_cost * uniform 0.25 0.40 (sd_materials d);
                     equipment = estimated_cost * uniform 0.05 0.15 (sd_equipment d);
                     subcontractor = estimated_cost * uniform 0.10 0.25 (sd_subcontractor d);
                     overhead = estimated_cost * uniform 0.08 0.15 (sd_overhead d);
                     profit = estimated_cost * uniform 0.05 0.12 (sd_profit d)
                 in Inr \<lparr>estimate_id = sd_uuid d,
                         estimate_project_id = project_id project,
                         estimate_estimator_id = estimator_id estimator,
                         estimate_sequence = int seq + 1,
                         aace_class = aace_class',
                         engineering_completion_percent = engineering_pct,
                         estimated_total_cost = py_round estimated_cost 2 ties,
                         confidence_interval_low = py_round (base_cost * (1 + variance_low)) 2 ties,
                         confidence_interval_high = py_round (base_cost * (1 + variance_high)) 2 ties,
                         labor_cost = py_round labor 2 ties,
                         materials_cost = py_round materials 2 ties,
                         equipment_cost = py_round equipment 2 ties,
                         subcontractor_cost = py_round subcontractor 2 ties,
                         overhead_cost = py_round overhead 2 ties,
                         profit_margin = py_round profit 2 ties,
                         contingency_percent = py_round contingency_pct 2 ties,
                         estimated_duration_days = sd_duration d,
                         estimation_method =
                           (if class_index < length ESTIMATION_METHODS
                            then ESTIMATION_METHODS ! class_index else ''detailed_takeoff''),
                         status =
                           (if int seq = num_estimates - 1 then ''accepted'' else ''superseded''),
                         submitted_date = submitted_date'\<rparr>)))"

text \<open>
  \<^verbatim>\<open>generate_progressive_estimates(conn, project, estimators)\<close>: the rows it inserts
  into the table of estimates, in order. The integer the source returns is
  \<^verbatim>\<open>num_estimates\<close>, the number of these rows.
\<close>

definition generate_progressive_estimates ::
  "project \<Rightarrow> estimator list \<Rightarrow> prog_draws \<Rightarrow> (real \<Rightarrow> bool) \<Rightarrow>
     py_error + estimate list" where
  "generate_progressive_estimates project estimators pd ties =
     (case choice estimators (pd_estimator pd) of
        Inl e \<Rightarrow> Inl e
      | Inr estimator \<Rightarrow>
         (let num_estimates = pd_num_estimates pd
          in collect (map (\<lambda>seq. progressive_estimate project estimator num_estimates seq
                                   (pd_steps pd seq) ties)
                        [0..<nat num_estimates])))"

text \<open>
  The values drawn for one estimator of the independent-bids branch of
  \<^verbatim>\<open>generate_estimates\<close>: the position of
  \<^verbatim>\<open>random.choice(list(AACE_CLASSES.keys()))\<close>, the draws of the cost model as above,
  \<^verbatim>\<open>random.randint(1, 14)\<close>, the position of \<^verbatim>\<open>random.choice(ESTIMATION_METHODS)\<close> and
  the \<^verbatim>\<open>random.random()\<close> of the status.
\<close>

record bid_draws =
  bd_class :: nat
  bd_variance :: real
  bd_engineering :: int
  bd_contingency :: real
  bd_labor :: real
  bd_materials :: real
  bd_equipment :: real
  bd_subcontractor :: real
  bd_overhead :: real
  bd_profit :: real
  bd_days :: int
  bd_uuid :: string
  bd_duration :: int
  bd_method :: nat
  bd_status :: real

definition valid_bid_draws :: "bid_draws \<Rightarrow> bool" where
  "valid_bid_draws d \<longleftrightarrow>
     bd_class d < length AACE_CLASSES \<and> unit_draw (bd_variance d) \<and>
     -5 \<le> bd_engineering d \<and> bd_engineering d \<le> 10 \<and> unit_draw (bd_contingency d) \<and>
     unit_draw (bd_labor d) \<and> unit_draw (bd_materials d) \<and> unit_draw (bd_equipment d) \<and>
     unit_draw (bd_subcontractor d) \<and> unit_draw (bd_overhead d) \<and> unit_draw (bd_profit d) \<and>
     1 \<le> bd_days d \<and> bd_days d \<le> 14 \<and> 30 \<le> bd_duration d \<and> bd_duration d \<le> 720 \<and>
     bd_method d < length ESTIMATION_METHODS \<and> unit_draw (bd_status d)"

text \<open>
  The body of the inner loop of \<^verbatim>\<open>generate_estimates\<close> (lines 835 to 882): the row
  inserted for one selected estimator.
\<close>

definition single_estimate ::
  "project \<Rightarrow> estimator \<Rightarrow> bid_draws \<Rightarrow> (real \<Rightarrow> bool) \<Rightarrow> py_error + estimate" where
  "single_estimate project estimator d ties =
     (case choice (map fst AACE_CLASSES) (bd_class d) of
        Inl e \<Rightarrow> Inl e
      | Inr aace_class' \<Rightarrow>
         (case aace_lookup aace_class' of
            Inl e \<Rightarrow> Inl e
          | Inr class_info \<Rightarrow>
             (case choice ESTIMATION_METHODS (bd_method d) of
                Inl e \<Rightarrow> Inl e
              | Inr method \<Rightarrow>
                 (let base_cost = base_cost_of project;
                      variance_low = real_of_int (confidence_low class_info) / 100.0;
                      variance_high = real_of_int (confidence_high class_info) / 100.0;
                      variance = uniform variance_low variance_high (bd_variance d);
                      estimated_cost = base_cost * (1 + variance);
                      engineering_pct = engineering_completion class_info + bd_engineering d;
                      engineering_pct = max 0 (min 100 engineering_pct);
                      contingency_pct =
                        typical_contingency class_info + uniform (-2) 2 (bd_contingency d);
                      labor = estimated_cost * uniform 0.3 0.45 (bd_labor d);
                      materials = estimated_cost * uniform 0.25 0.40 (bd_materials d);
                      equipment = estimated_cost * uniform 0.05 0.15 (bd_equipment d);
                      subcontractor = estimated_cost * uniform 0.10 0.25 (bd_subcontractor d);
                      overhead = estimated_cost * uniform 0.08 0.15 (bd_overhead d);
                      profit = estimated_cost * uniform 0.05 0.12 (bd_profit d);
                      submitted_date' = add_days (posted_date project) (bd_days d)
                  in Inr \<lparr>estimate_id = bd_uuid d,
                          estimate_project_id = project_id project,
                          estimate_estimator_id = estimator_id estimator,
                          estimate_sequence = 1,
                          aace_class = aace_class',
                          engineering_completion_percent = engineering_pct,
                          estimated_total_cost = py_round estimated_cost 2 ties,
                          confidence_interval_low =
                            py_round (base_cost * (1 + variance_low)) 2 ties,
                          confidence_interval_high =
                            py_round (base_cost * (1 + variance_high)) 2 ties,
                          labor_cost = py_round labor 2 ties,
                          materials_cost = py_round materials 2 ties,
                          equipment_cost = py_round equipment 2 ties,
                          subcontractor_cost = py_round subcontractor 2 ties,
                          overhead_cost = py_round overhead 2 ties,
                          profit_margin = py_round profit 2 ties,
                          contingency_percent = py_round contingency_pct 2 ties,
                          estimated_duration_days = bd_duration d,
                          estimation_method = method,
                          status = (if 0.7 < bd_status d then ''accepted'' else ''pending''),
                          submitted_date = submitted_date'\<rparr>))))"

text \<open>
  The values drawn for one project by \<^verbatim>\<open>generate_estimates\<close>: the
  \<^verbatim>\<open>random.random()\<close> of the mode, the draws of the progressive branch, and for the
  other branch \<^verbatim>\<open>random.randint(1, 3)\<close>, the positions picked by
  \<^verbatim>\<open>random.sample\<close> and the draws of the \<open>i\<close>-th selected estimator. Only the draws
  of the branch taken are made.
\<close>

record estimate_draws =
  ed_mode :: real
  ed_progressive :: prog_draws
  ed_num_estimates :: int
  ed_sample :: "nat list"
  ed_bids :: "nat \<Rightarrow> bid_draws"

definition valid_estimate_draws :: "estimator list \<Rightarrow> estimate_draws \<Rightarrow> bool" where
  "valid_estimate_draws estimators ed \<longleftrightarrow>
     unit_draw (ed_mode ed) \<and>
     (if ed_mode ed < PROGRESSIVE_ESTIMATE_RATE
      then valid_prog_draws estimators (ed_progressive ed)
      else 1 \<le> ed_num_estimates ed \<and> ed_num_estimates ed \<le> 3 \<and>
        int (length (ed_sample ed)) = min (ed_num_estimates ed) (int (length estimators)) \<and>
        distinct (ed_sample ed) \<and> list_all (\<lambda>i. i < length estimators) (ed_sample ed) \<and>
        list_all (\<lambda>i. valid_bid_draws (ed_bids ed i)) [0..<length (ed_sample ed)])"

text \<open>
  The body of the outer loop of \<^verbatim>\<open>generate_estimates\<close> (lines 823 to 904): the rows
  inserted for one project.
\<close>

definition project_estimates ::
  "project \<Rightarrow> estimator list \<Rightarrow> estimate_draws \<Rightarrow> (real \<Rightarrow> bool) \<Rightarrow>
     py_error + estimate list" where
  "project_estimates project estimators ed ties =
     (if ed_mode ed < PROGRESSIVE_ESTIMATE_RATE
      then generate_progressive_estimates project estimators (ed_progressive ed) ties
      else
        (let num_estimates = ed_num_estimates ed
         in case sample estimators (min num_estimates (int (length estimators))) (ed_sample ed) of
              Inl e \<Rightarrow> Inl e
            | Inr selected_estimators \<Rightarrow>
                collect (map (\<lambda>(i, estimator). single_estimate project estimator (ed_bids ed i) ties)
                           (enumerate 0 selected_estimators))))"

text \<open>\<^verbatim>\<open>generate_estimates(conn, projects, estimators)\<close>: all inserted rows, in order.\<close>

definition generate_estimates ::
  "project list \<Rightarrow> estimator list \<Rightarrow> (nat \<Rightarrow> estimate_draws) \<Rightarrow> (real \<Rightarrow> bool) \<Rightarrow>
     py_error + estimate list" where
  "generate_estimates projects estimators draws ties =
     (case collect (map (\<lambda>(i, project). project_estimates project estimators (draws i) ties)
                      (enumerate 0 projects)) of
        Inl e \<Rightarrow> Inl e
      | Inr rows \<Rightarrow> Inr (concat rows))"

subsection \<open>Notions of the specification and sample data\<close>

text \<open>The number in a class key; 0 for any other string.\<close>

definition aace_class_number :: "string \<Rightarrow> int" where
  "aace_class_number key =
     (if key = ''class_5'' then 5 else if key = ''class_4'' then 4
      else if key = ''class_3'' then 3 else if key = ''class_2'' then 2
      else if key = ''class_1'' then 1 else 0)"

text \<open>The width of the confidence interval of a row.\<close>

definition ci_width :: "estimate \<Rightarrow> real" where
  "ci_width r = confidence_interval_high r - confidence_interval_low r"

text \<open>
  A direction for the sample runs: an exact half goes up when the integer below it is
  odd, that is to the even neighbour.
\<close>

definition ties_to_even :: "real \<Rightarrow> bool" where
  "ties_to_even y \<longleftrightarrow> odd \<lfloor>y\<rfloor>"

text \<open>
  A sample run: one business, a project in New York with a log-normal draw of
  1,000,000, two estimators, and a progressive sequence of three steps.
\<close>

definition demo_businesses :: "business list" where
  "demo_businesses = [\<lparr>business_id = ''b-1''\<rparr>]"

definition demo_project_draws :: project_draws where
  "demo_project_draws =
     \<lparr>pj_business = 0, pj_city = 0, pj_posted_date = \<lparr>ordinal = 739038, micros = 0\<rparr>,
      pj_lognormal = 1000000, pj_uuid = ''p-1''\<rparr>"

definition demo_project :: project where
  "demo_project =
     \<lparr>project_id = ''p-1'', project_business_id = ''b-1'', project_city = ''New York'',
      project_state = ''NY'', regional_cost_multiplier = 1.35,
      estimated_budget_min = 1080000, estimated_budget_max = 1620000,
      posted_date = \<lparr>ordinal = 739038, micros = 0\<rparr>\<rparr>"

definition demo_estimators :: "estimator list" where
  "demo_estimators = [\<lparr>estimator_id = ''e-1''\<rparr>, \<lparr>estimator_id = ''e-2''\<rparr>]"

definition demo_step :: step_draws where
  "demo_step =
     \<lparr>sd_variance = 1/2, sd_days = 14, sd_engineering = 3, sd_contingency = 1/2,
      sd_labor = 1/2, sd_materials = 1/2, sd_equipment = 1/2, sd_subcontractor = 1/2,
      sd_overhead = 1/2, sd_profit = 1/2, sd_uuid = ''u-1'', sd_duration = 90\<rparr>"

definition demo_prog_draws :: prog_draws where
  "demo_prog_draws =
     \<lparr>pd_estimator = 1, pd_num_estimates = 3, pd_steps = (\<lambda>seq. demo_step)\<rparr>"

text \<open>A run of three steps whose draws of \<^verbatim>\<open>random.randint(7, 21)\<close> are 7, 21 and 7.\<close>

definition late_then_early_draws :: prog_draws where
  "late_then_early_draws =
     \<lparr>pd_estimator = 0, pd_num_estimates = 3,
      pd_steps = (\<lambda>seq. demo_step\<lparr>sd_days := (if seq = 1 then 21 else 7)\<rparr>)\<rparr>"

text \<open>
  The source seeds two of its generators at import, \<^verbatim>\<open>Faker.seed(42)\<close> and
  \<^verbatim>\<open>np.random.seed(42)\<close>, and neither the \<^verbatim>\<open>random\<close> module nor \<^verbatim>\<open>uuid\<close>. Of
  the draws of a project these two are the ones that the seeded generators supply:
  \<^verbatim>\<open>np.random.lognormal\<close> and \<^verbatim>\<open>fake.date_time_between\<close>. The draws of an estimate
  all come from \<^verbatim>\<open>random\<close> and \<^verbatim>\<open>uuid\<close>.
\<close>

definition seeded_project_draws :: "project_draws \<Rightarrow> real \<times> datetime" where
  "seeded_project_draws d = (pj_lognormal d, pj_posted_date d)"

text \<open>
  The interval of a row is the one of its class on the base cost of the project,
  rounded to two decimals, and contains the point estimate.
\<close>

definition interval_from_class :: "(real \<Rightarrow> bool) \<Rightarrow> project \<Rightarrow> estimate \<Rightarrow> bool" where
  "interval_from_class ties project r \<longleftrightarrow>
     (case aace_lookup (aace_class r) of
        Inl e \<Rightarrow> False
      | Inr c \<Rightarrow>
          confidence_interval_low r =
            py_round (base_cost_of project * (1 + real_of_int (confidence_low c) / 100)) 2 ties \<and>
          confidence_interval_high r =
            py_round (base_cost_of project * (1 + real_of_int (confidence_high c) / 100)) 2 ties \<and>
          confidence_interval_low r \<le> estimated_total_cost r \<and>
          estimated_total_cost r \<le> confidence_interval_high r)"

text \<open>The total cost of a row and the six components of its breakdown.\<close>

definition amounts :: "estimate \<Rightarrow> real list" where
  "amounts r =
     [estimated_total_cost r, labor_cost r, materials_cost r, equipment_cost r,
      subcontractor_cost r, overhead_cost r, profit_margin r]"

text \<open>
  The unrounded \<^verbatim>\<open>estimated_cost\<close> of both branches, for a base cost, a class and
  the \<^verbatim>\<open>random()\<close> behind the variance.
\<close>

definition sampled_cost :: "real \<Rightarrow> class_info \<Rightarrow> real \<Rightarrow> real" where
  "sampled_cost base c u =
     base * (1 + uniform (real_of_int (confidence_low c) / 100)
                   (real_of_int (confidence_high c) / 100) u)"

text \<open>
  Further sample data: a project in Houston (multiplier 1.0) with a log-normal draw
  of 1,000,000, hence a base cost of 1,000,000; one whose draw of 1,350,000.013 gives
  budget bounds with cents; and the draws of a project that receives two independent
  bids, of class 5 and of class 1, or of class 2 and of class 1.
\<close>

definition houston_project_draws :: project_draws where
  "houston_project_draws = demo_project_draws\<lparr>pj_city := 3\<rparr>"

definition houston_project :: project where
  "houston_project =
     \<lparr>project_id = ''p-1'', project_business_id = ''b-1'', project_city = ''Houston'',
      project_state = ''TX'', regional_cost_multiplier = 1,
      estimated_budget_min = 800000, estimated_budget_max = 1200000,
      posted_date = \<lparr>ordinal = 739038, micros = 0\<rparr>\<rparr>"

definition cents_project_draws :: project_draws where
  "cents_project_draws = demo_project_draws\<lparr>pj_city := 3, pj_lognormal := 1350000.013\<rparr>"

definition cents_project :: project where
  "cents_project =
     houston_project\<lparr>estimated_budget_min := 1080000.01, estimated_budget_max := 1620000.02\<rparr>"

text \<open>
  A project whose base cost, 1,000,000.10, puts the lower bound of class 2 and the
  upper bound of class 1 exactly on a half cent (850,000.085 and 1,150,000.115), with
  the directions in which Python rounds the two doubles: the first up, the second
  down.
\<close>

definition half_cent_project_draws :: project_draws where
  "half_cent_project_draws = demo_project_draws\<lparr>pj_city := 3, pj_lognormal := 1000000.10\<rparr>"

definition half_cent_project :: project where
  "half_cent_project =
     houston_project\<lparr>estimated_budget_min := 800000.08, estimated_budget_max := 1200000.12\<rparr>"

definition ties_as_stored :: "real \<Rightarrow> bool" where
  "ties_as_stored y \<longleftrightarrow> y = 85000008.5"

definition demo_bid :: bid_draws where
  "demo_bid =
     \<lparr>bd_class = 0, bd_variance = 1/2, bd_engineering = 3, bd_contingency = 1/2,
      bd_labor = 1/2, bd_materials = 1/2, bd_equipment = 1/2, bd_subcontractor = 1/2,
      bd_overhead = 1/2, bd_profit = 1/2, bd_days = 5, bd_uuid = ''u-2'', bd_duration = 90,
      bd_method = 2, bd_status = 1/2\<rparr>"

definition demo_estimate_draws :: estimate_draws where
  "demo_estimate_draws =
     \<lparr>ed_mode = 1/2, ed_progressive = demo_prog_draws, ed_num_estimates = 2,
      ed_sample = [1, 0],
      ed_bids = (\<lambda>i. demo_bid\<lparr>bd_class := (if i = 0 then 0 else 4)\<rparr>)\<rparr>"

definition half_cent_estimate_draws :: estimate_draws where
  "half_cent_estimate_draws =
     demo_estimate_draws\<lparr>ed_bids := (\<lambda>i. demo_bid\<lparr>bd_class := (if i = 0 then 3 else 4)\<rparr>)\<rparr>"

section \<open>Rounding\<close>

lemma round_nearest_bounds:
  "\<lfloor>y\<rfloor> \<le> round_nearest y ties" "round_nearest y ties \<le> \<lfloor>y\<rfloor> + 1"
  by (simp_all add: round_nearest_def Let_def)

lemma round_nearest_mono:
  assumes "x \<le> y"
  shows "round_nearest x ties \<le> round_nearest y ties"
proof (cases "\<lfloor>x\<rfloor> = \<lfloor>y\<rfloor>")
  case True
  show ?thesis
  proof (cases "x = y")
    case True
    then show ?thesis
      by simp
  next
    case False
    with assms have "x - of_int \<lfloor>x\<rfloor> < y - of_int \<lfloor>y\<rfloor>"
      using \<open>\<lfloor>x\<rfloor> = \<lfloor>y\<rfloor>\<close> by simp
    then show ?thesis
      using \<open>\<lfloor>x\<rfloor> = \<lfloor>y\<rfloor>\<close> by (auto simp: round_nearest_def Let_def)
  qed
next
  case False
  then have "\<lfloor>x\<rfloor> < \<lfloor>y\<rfloor>"
    using floor_mono [OF assms] by linarith
  then have "round_nearest x ties \<le> \<lfloor>y\<rfloor>"
    using round_nearest_bounds(2) [of x ties] by linarith
  then show ?thesis
    using round_nearest_bounds(1) [of y ties] by linarith
qed

lemma round_nearest_error: "\<bar>of_int (round_nearest y ties) - y\<bar> \<le> 1/2"
proof -
  have "of_int \<lfloor>y\<rfloor> \<le> y" "y < of_int \<lfloor>y\<rfloor> + 1"
    by linarith+
  then show ?thesis
    by (auto simp: round_nearest_def Let_def abs_le_iff)
qed

lemma round_nearest_of_int [simp]: "round_nearest (of_int k) ties = k"
  by (simp add: round_nearest_def Let_def)

lemma py_round_mono: "x \<le> y \<Longrightarrow> py_round x n ties \<le> py_round y n ties"
  unfolding py_round_def
  by (intro divide_right_mono of_int_le_iff[THEN iffD2] round_nearest_mono mult_right_mono) simp_all

lemma py_round_error: "\<bar>py_round x 2 ties - x\<bar> \<le> 1/200"
proof -
  have "\<bar>of_int (round_nearest (x * 100) ties) - x * 100\<bar> \<le> 1/2"
    by (rule round_nearest_error)
  then show ?thesis
    by (simp add: py_round_def abs_le_iff field_simps)
qed

lemma py_round_of_int [simp]: "py_round (of_int k) n ties = of_int k"
proof -
  have "(of_int k :: real) * 10 ^ n = of_int (k * 10 ^ n)" by simp
  then have "round_nearest (of_int k * 10 ^ n) ties = k * 10 ^ n"
    by (metis round_nearest_of_int)
  then show ?thesis by (simp add: py_round_def)
qed

lemma py_round_nonneg: "0 \<le> x \<Longrightarrow> 0 \<le> py_round x n ties"
  using py_round_mono [of 0 x n ties] py_round_of_int [of 0 n ties] by simp

lemma py_round_ge_int: "of_int k \<le> x \<Longrightarrow> of_int k \<le> py_round x n ties"
  using py_round_mono [of "of_int k" x n ties] by simp

lemma round_nearest_pos:
  assumes "1/2 < y"
  shows "1 \<le> round_nearest y ties"
proof (cases "1 \<le> \<lfloor>y\<rfloor>")
  case True
  then show ?thesis
    using round_nearest_bounds(1) [of y ties] by linarith
next
  case False
  have "0 \<le> \<lfloor>y\<rfloor>"
    using assms by simp
  with False have f: "\<lfloor>y\<rfloor> = 0"
    by linarith
  then show ?thesis
    using assms by (simp add: round_nearest_def Let_def)
qed

lemma py_round_pos:
  assumes "1/200 < x"
  shows "0 < py_round x 2 ties"
proof -
  have "1/2 < x * 100"
    using assms by simp
  then have "1 \<le> round_nearest (x * 100) ties"
    by (rule round_nearest_pos)
  then show ?thesis
    by (simp add: py_round_def)
qed

section \<open>Loops and lookups\<close>

lemma collect_Inr: "collect (map Inr ys) = Inr ys"
  by (induction ys) auto

lemma aace_lookup_progression:
  "i < 5 \<Longrightarrow> aace_lookup (class_progression ! i) = Inr (snd (AACE_CLASSES ! i))"
proof -
  assume "i < 5"
  then have "i \<in> {0, 1, 2, 3, 4}" by auto
  then show ?thesis
    by (auto simp: class_progression_def aace_lookup_def AACE_CLASSES_def)
qed


lemma choice_progression:
  "choice class_progression (min seq (length class_progression - 1)) =
     Inr (class_progression ! min seq 4)"
proof -
  have "length class_progression - 1 = 4" "length class_progression = 5"
    by (simp_all add: class_progression_def)
  moreover have "min seq 4 < 5"
    by simp
  ultimately show ?thesis
    by (simp only: choice_def if_True)
qed

lemma progressive_estimate_row:
  fixes p e n seq d
  defines "c \<equiv> snd (AACE_CLASSES ! min seq 4)"
  defines "cost \<equiv> sampled_cost (base_cost_of p) c (sd_variance d)"
  shows "\<exists>r. progressive_estimate p e n seq d ties = Inr r \<and>
           aace_class r = class_progression ! min seq 4 \<and>
           estimate_sequence r = int seq + 1 \<and>
           status r = (if int seq = n - 1 then ''accepted'' else ''superseded'') \<and>
           submitted_date r = add_days (posted_date p) (int seq * sd_days d) \<and>
           confidence_interval_low r =
             py_round (base_cost_of p * (1 + real_of_int (confidence_low c) / 100)) 2 ties \<and>
           confidence_interval_high r =
             py_round (base_cost_of p * (1 + real_of_int (confidence_high c) / 100)) 2 ties \<and>
           estimated_total_cost r = py_round cost 2 ties \<and>
           labor_cost r = py_round (cost * uniform 0.3 0.45 (sd_labor d)) 2 ties \<and>
           materials_cost r = py_round (cost * uniform 0.25 0.40 (sd_materials d)) 2 ties \<and>
           equipment_cost r = py_round (cost * uniform 0.05 0.15 (sd_equipment d)) 2 ties \<and>
           subcontractor_cost r = py_round (cost * uniform 0.10 0.25 (sd_subcontractor d)) 2 ties \<and>
           overhead_cost r = py_round (cost * uniform 0.08 0.15 (sd_overhead d)) 2 ties \<and>
           profit_margin r = py_round (cost * uniform 0.05 0.12 (sd_profit d)) 2 ties \<and>
           contingency_percent r =
             py_round (typical_contingency c + uniform (-2) 2 (sd_contingency d)) 2 ties"
proof -
  have "min seq 4 < 5" by simp
  then have l: "aace_lookup (class_progression ! min seq 4) = Inr c"
    unfolding c_def by (rule aace_lookup_progression)
  show ?thesis
    unfolding progressive_estimate_def Let_def choice_progression l sum.case cost_def
      sampled_cost_def
    by (rule exI, rule conjI, rule refl) simp
qed

lemma generate_progressive_rows:
  assumes "pd_estimator pd < length estimators"
  shows "\<exists>rows. generate_progressive_estimates p estimators pd ties = Inr rows \<and>
           length rows = nat (pd_num_estimates pd) \<and>
           (\<forall>i<length rows.
              progressive_estimate p (estimators ! pd_estimator pd) (pd_num_estimates pd) i
                (pd_steps pd i) ties = Inr (rows ! i))"
proof -
  let ?f = "\<lambda>seq. progressive_estimate p (estimators ! pd_estimator pd) (pd_num_estimates pd)
                    seq (pd_steps pd seq) ties"
  let ?n = "nat (pd_num_estimates pd)"
  define rows where "rows = map (\<lambda>i. projr (?f i)) [0..<?n]"
  have "?f i = Inr (projr (?f i))" for i
    using progressive_estimate_row [of p "estimators ! pd_estimator pd" "pd_num_estimates pd" i
        "pd_steps pd i" ties] by auto
  then have m: "map ?f [0..<?n] = map Inr rows"
    unfolding rows_def by (simp add: comp_def)
  have "generate_progressive_estimates p estimators pd ties = Inr rows"
    using assms m by (simp add: generate_progressive_estimates_def choice_def collect_Inr)
  moreover have "length rows = ?n"
    by (simp add: rows_def)
  moreover have "?f i = Inr (rows ! i)" if "i < length rows" for i
  proof -
    have "map ?f [0..<?n] ! i = map Inr rows ! i"
      using m by simp
    then show ?thesis
      using that \<open>length rows = ?n\<close> by simp
  qed
  ultimately show ?thesis
    by blast
qed


lemma valid_prog_draws_demo: "valid_prog_draws demo_estimators demo_prog_draws"
  by (simp add: valid_prog_draws_def demo_estimators_def demo_prog_draws_def
      MAX_PROGRESSIVE_ESTIMATES_def valid_step_draws_def demo_step_def unit_draw_def
      list_all_iff)

lemma progressive_classes:
  assumes "valid_prog_draws estimators pd"
  shows "\<exists>rows. generate_progressive_estimates project estimators pd ties = Inr rows \<and>
           int (length rows) = pd_num_estimates pd \<and>
           map aace_class rows = take (length rows) class_progression"
proof -
  from assms have e: "pd_estimator pd < length estimators"
    and n: "2 \<le> pd_num_estimates pd" "pd_num_estimates pd \<le> 5"
    by (simp_all add: valid_prog_draws_def MAX_PROGRESSIVE_ESTIMATES_def)
  from generate_progressive_rows [OF e, of project ties]
  obtain rows where g: "generate_progressive_estimates project estimators pd ties = Inr rows"
    and len: "length rows = nat (pd_num_estimates pd)"
    and row: "\<And>i. i < length rows \<Longrightarrow>
      progressive_estimate project (estimators ! pd_estimator pd) (pd_num_estimates pd) i
        (pd_steps pd i) ties = Inr (rows ! i)"
    by blast
  have l5: "length rows \<le> 5"
    using len n by linarith
  have "map aace_class rows = take (length rows) class_progression"
  proof (rule nth_equalityI)
    show "length (map aace_class rows) = length (take (length rows) class_progression)"
      using l5 by (simp add: class_progression_def)
  next
    fix i assume "i < length (map aace_class rows)"
    then have i: "i < length rows" by simp
    then have "min i 4 = i" using l5 by linarith
    with progressive_estimate_row [of project "estimators ! pd_estimator pd"
        "pd_num_estimates pd" i "pd_steps pd i" ties] row [OF i]
    have "aace_class (rows ! i) = class_progression ! i"
      by auto
    then show "map aace_class rows ! i = take (length rows) class_progression ! i"
      using i by simp
  qed
  with g len n show ?thesis
    by auto
qed

section \<open>Class progression\<close>

text \<open>
  Claim C4. A progressive sequence has between 2 and 5 rows, and the row at the
  0-indexed step \<open>i\<close> carries class \<open>5 - i\<close>: the classes are the first rows of
  \<open>class_5, class_4, class_3, class_2, class_1\<close>, so a sequence of length 3 uses
  classes 5, 4, 3 and one of length 5 uses 5, 4, 3, 2, 1, and the class number
  strictly decreases along the sequence.
\<close>

theorem progressive_class_by_step:
  assumes "valid_prog_draws estimators pd"
  shows "\<exists>rows. generate_progressive_estimates project estimators pd ties = Inr rows \<and>
           int (length rows) = pd_num_estimates pd \<and> 2 \<le> length rows \<and> length rows \<le> 5 \<and>
           map aace_class rows = take (length rows) class_progression \<and>
           map (\<lambda>r. aace_class_number (aace_class r)) rows =
             map (\<lambda>i. 5 - int i) [0..<length rows] \<and>
           sorted_wrt (\<lambda>a b. aace_class_number (aace_class b) < aace_class_number (aace_class a))
             rows \<and>
           (length rows = 3 \<longrightarrow> map aace_class rows = [''class_5'', ''class_4'', ''class_3'']) \<and>
           (length rows = 5 \<longrightarrow>
              map aace_class rows = [''class_5'', ''class_4'', ''class_3'', ''class_2'', ''class_1''])"
proof -
  from progressive_classes [OF assms, of project ties]
  obtain rows where g: "generate_progressive_estimates project estimators pd ties = Inr rows"
    and len: "int (length rows) = pd_num_estimates pd"
    and cls: "map aace_class rows = take (length rows) class_progression"
    by blast
  from assms len have n: "2 \<le> length rows" "length rows \<le> 5"
    by (simp_all add: valid_prog_draws_def MAX_PROGRESSIVE_ESTIMATES_def)
  then consider "length rows = 2" | "length rows = 3" | "length rows = 4" | "length rows = 5"
    by linarith
  then have num: "map (\<lambda>r. aace_class_number (aace_class r)) rows =
      map (\<lambda>i. 5 - int i) [0..<length rows]"
  proof cases
    case 1
    have "map aace_class_number (map aace_class rows) = [5, 4]"
      unfolding cls 1 by (simp add: class_progression_def aace_class_number_def)
    then show ?thesis
      by (simp add: 1 comp_def upt_rec)
  next
    case 2
    have "map aace_class_number (map aace_class rows) = [5, 4, 3]"
      unfolding cls 2 by (simp add: class_progression_def aace_class_number_def)
    then show ?thesis
      by (simp add: 2 comp_def upt_rec)
  next
    case 3
    have "map aace_class_number (map aace_class rows) = [5, 4, 3, 2]"
      unfolding cls 3 by (simp add: class_progression_def aace_class_number_def)
    then show ?thesis
      by (simp add: 3 comp_def upt_rec)
  next
    case 4
    have "map aace_class_number (map aace_class rows) = [5, 4, 3, 2, 1]"
      unfolding cls 4 by (simp add: class_progression_def aace_class_number_def)
    then show ?thesis
      by (simp add: 4 comp_def upt_rec)
  qed
  have "sorted_wrt (\<lambda>a b. b < a) (map (\<lambda>i. 5 - int i) [0..<length rows])"
    by (simp add: sorted_wrt_map sorted_wrt_iff_nth_less)
  then have "sorted_wrt (\<lambda>a b. b < a) (map (\<lambda>r. aace_class_number (aace_class r)) rows)"
    using num by simp
  then have srt: "sorted_wrt
      (\<lambda>a b. aace_class_number (aace_class b) < aace_class_number (aace_class a)) rows"
    by (simp add: sorted_wrt_map)
  have c3: "length rows = 3 \<longrightarrow> map aace_class rows = [''class_5'', ''class_4'', ''class_3'']"
    unfolding cls by (simp add: class_progression_def)
  have c5: "length rows = 5 \<longrightarrow>
      map aace_class rows = [''class_5'', ''class_4'', ''class_3'', ''class_2'', ''class_1'']"
    unfolding cls by (simp add: class_progression_def)
  from g len n cls num srt c3 c5 show ?thesis
    by (intro exI [of _ rows] conjI) assumption+
qed

theorem progressive_class_by_step_witness:
  "valid_prog_draws demo_estimators demo_prog_draws \<and>
   (\<exists>rows. generate_progressive_estimates demo_project demo_estimators demo_prog_draws ties_to_even = Inr rows \<and>
      map aace_class rows = [''class_5'', ''class_4'', ''class_3''])"
proof -
  have n: "pd_num_estimates demo_prog_draws = 3"
    by (simp add: demo_prog_draws_def)
  from progressive_class_by_step [OF valid_prog_draws_demo, of demo_project ties_to_even]
  obtain rows
    where g: "generate_progressive_estimates demo_project demo_estimators demo_prog_draws ties_to_even = Inr rows"
      and l: "int (length rows) = pd_num_estimates demo_prog_draws"
      and c: "length rows = 3 \<longrightarrow> map aace_class rows = [''class_5'', ''class_4'', ''class_3'']"
    by (elim exE conjE)
  from l n have "length rows = 3"
    by linarith
  with c have "map aace_class rows = [''class_5'', ''class_4'', ''class_3'']"
    by (rule mp)
  with g valid_prog_draws_demo show ?thesis
    by (intro conjI exI [of _ rows]) assumption+
qed

section \<open>Columns of a progressive sequence\<close>

lemma progressive_rows_status:
  assumes "pd_estimator pd < length estimators"
  shows "\<exists>rows. generate_progressive_estimates project estimators pd ties = Inr rows \<and>
           length rows = nat (pd_num_estimates pd) \<and>
           map status rows =
             map (\<lambda>i. if int i = pd_num_estimates pd - 1 then ''accepted'' else ''superseded'')
               [0..<length rows] \<and>
           map estimate_sequence rows = map (\<lambda>i. int i + 1) [0..<length rows] \<and>
           map submitted_date rows =
             map (\<lambda>i. add_days (posted_date project) (int i * sd_days (pd_steps pd i)))
               [0..<length rows]"
proof -
  from generate_progressive_rows [OF assms, of project ties]
  obtain rows where g: "generate_progressive_estimates project estimators pd ties = Inr rows"
    and len: "length rows = nat (pd_num_estimates pd)"
    and row: "\<And>i. i < length rows \<Longrightarrow>
      progressive_estimate project (estimators ! pd_estimator pd) (pd_num_estimates pd) i
        (pd_steps pd i) ties = Inr (rows ! i)"
    by blast
  have f: "status (rows ! i) =
        (if int i = pd_num_estimates pd - 1 then ''accepted'' else ''superseded'') \<and>
      estimate_sequence (rows ! i) = int i + 1 \<and>
      submitted_date (rows ! i) = add_days (posted_date project) (int i * sd_days (pd_steps pd i))"
    if "i < length rows" for i
    using progressive_estimate_row [of project "estimators ! pd_estimator pd"
        "pd_num_estimates pd" i "pd_steps pd i" ties] row [OF that]
    by (elim exE conjE) simp
  have s: "map status rows =
      map (\<lambda>i. if int i = pd_num_estimates pd - 1 then ''accepted'' else ''superseded'')
        [0..<length rows]"
    by (rule nth_equalityI) (simp_all add: f)
  have q: "map estimate_sequence rows = map (\<lambda>i. int i + 1) [0..<length rows]"
    by (rule nth_equalityI) (simp_all add: f)
  have t: "map submitted_date rows =
      map (\<lambda>i. add_days (posted_date project) (int i * sd_days (pd_steps pd i)))
        [0..<length rows]"
    by (rule nth_equalityI) (simp_all add: f)
  from g len s q t show ?thesis
    by (intro exI [of _ rows] conjI) assumption+
qed

section \<open>Terminal acceptance\<close>

text \<open>
  Claim C5. In a progressive sequence the rows are numbered 1, 2, \<dots> in order; every
  row but the last has status \<open>superseded\<close> and the last one, which has the greatest
  sequence number, has status \<open>accepted\<close>, so exactly one row is accepted.
\<close>

theorem progressive_terminal_acceptance:
  assumes "valid_prog_draws estimators pd"
  shows "\<exists>rows. generate_progressive_estimates project estimators pd ties = Inr rows \<and>
           rows \<noteq> [] \<and>
           map estimate_sequence rows = map (\<lambda>i. int i + 1) [0..<length rows] \<and>
           map status rows = replicate (length rows - 1) ''superseded'' @ [''accepted''] \<and>
           length (filter (\<lambda>r. status r = ''accepted'') rows) = 1 \<and>
           status (last rows) = ''accepted'' \<and>
           estimate_sequence (last rows) = int (length rows) \<and>
           list_all (\<lambda>r. status r = ''superseded'') (butlast rows)"
proof -
  from assms have e: "pd_estimator pd < length estimators" and n: "2 \<le> pd_num_estimates pd"
    by (simp_all add: valid_prog_draws_def)
  from progressive_rows_status [OF e, of project ties]
  obtain rows where g: "generate_progressive_estimates project estimators pd ties = Inr rows"
    and len: "length rows = nat (pd_num_estimates pd)"
    and st: "map status rows =
      map (\<lambda>i. if int i = pd_num_estimates pd - 1 then ''accepted'' else ''superseded'')
        [0..<length rows]"
    and sq: "map estimate_sequence rows = map (\<lambda>i. int i + 1) [0..<length rows]"
    by (elim exE conjE)
  define k where "k = nat (pd_num_estimates pd) - 1"
  have k: "length rows = Suc k" and nk: "pd_num_estimates pd = int k + 1"
    using len n unfolding k_def by linarith+
  have ne: "rows \<noteq> []"
    using k by auto
  have "map (\<lambda>i. if int i = pd_num_estimates pd - 1 then ''accepted'' else ''superseded'') [0..<k]
      = map (\<lambda>i. ''superseded'') [0..<k]"
    by (rule map_cong) (simp_all add: nk)
  then have st': "map status rows = replicate (length rows - 1) ''superseded'' @ [''accepted'']"
    unfolding st k by (simp add: nk map_replicate_const)
  have "filter (\<lambda>s. s = ''accepted'') (map status rows) = [''accepted'']"
    unfolding st' by simp
  then have "length (filter ((\<lambda>s. s = ''accepted'') \<circ> status) rows) = 1"
    unfolding filter_map by (metis length_map length_Cons list.size(3) One_nat_def)
  then have cnt: "length (filter (\<lambda>r. status r = ''accepted'') rows) = 1"
    by (simp add: comp_def)
  have "last (map status rows) = ''accepted''"
    unfolding st' by simp
  then have la: "status (last rows) = ''accepted''"
    using ne by (simp add: last_map)
  have "last (map estimate_sequence rows) = int k + 1"
    unfolding sq k by simp
  then have ls: "estimate_sequence (last rows) = int (length rows)"
    using ne k by (simp add: last_map)
  have "butlast (map status rows) = replicate (length rows - 1) ''superseded''"
    unfolding st' by simp
  then have "map status (butlast rows) = replicate (length rows - 1) ''superseded''"
    by (simp add: map_butlast)
  then have "\<forall>s\<in>set (map status (butlast rows)). s = ''superseded''"
    by simp
  then have bl: "list_all (\<lambda>r. status r = ''superseded'') (butlast rows)"
    by (simp add: list_all_iff)
  from g ne sq st' cnt la ls bl show ?thesis
    by (intro exI [of _ rows] conjI) assumption+
qed

theorem progressive_terminal_acceptance_witness:
  "valid_prog_draws demo_estimators demo_prog_draws \<and>
   (\<exists>rows. generate_progressive_estimates demo_project demo_estimators demo_prog_draws ties_to_even = Inr rows \<and>
      map status rows = [''superseded'', ''superseded'', ''accepted''] \<and>
      map estimate_sequence rows = [1, 2, 3])"
proof -
  have e: "pd_estimator demo_prog_draws < length demo_estimators"
    by (simp add: demo_prog_draws_def demo_estimators_def)
  have n: "pd_num_estimates demo_prog_draws = 3"
    by (simp add: demo_prog_draws_def)
  from progressive_terminal_acceptance [OF valid_prog_draws_demo, of demo_project ties_to_even]
  obtain rows
    where g: "generate_progressive_estimates demo_project demo_estimators demo_prog_draws ties_to_even = Inr rows"
      and sq: "map estimate_sequence rows = map (\<lambda>i. int i + 1) [0..<length rows]"
      and st: "map status rows = replicate (length rows - 1) ''superseded'' @ [''accepted'']"
    by (elim exE conjE)
  from generate_progressive_rows [OF e, of demo_project ties_to_even] g n have l: "length rows = 3"
    by auto
  have "map status rows = [''superseded'', ''superseded'', ''accepted'']"
    unfolding st l by (simp add: numeral_eq_Suc)
  moreover have "map estimate_sequence rows = [1, 2, 3]"
    unfolding sq l by (simp add: upt_rec)
  ultimately show ?thesis
    using g valid_prog_draws_demo by (intro conjI exI [of _ rows]) assumption+
qed

section \<open>Submission dates\<close>

lemma add_days_zero: "add_days dt 0 = dt"
  by (simp add: add_days_def)

text \<open>
  Claim C10. The date of step \<open>seq\<close> is the posted date plus \<open>seq\<close> times the draw of
  \<^verbatim>\<open>random.randint(7, 21)\<close> of that step, so the first row, with sequence number 1
  and class 5, is dated exactly at the posted date of the project.
\<close>

theorem first_estimate_on_posted_date:
  assumes "valid_prog_draws estimators pd"
  shows "\<exists>rows. generate_progressive_estimates project estimators pd ties = Inr rows \<and>
           rows \<noteq> [] \<and>
           estimate_sequence (hd rows) = 1 \<and>
           aace_class (hd rows) = ''class_5'' \<and>
           submitted_date (hd rows) = posted_date project \<and>
           map submitted_date rows =
             map (\<lambda>seq. add_days (posted_date project) (int seq * sd_days (pd_steps pd seq)))
               [0..<length rows]"
proof -
  from assms have e: "pd_estimator pd < length estimators" and n: "2 \<le> pd_num_estimates pd"
    by (simp_all add: valid_prog_draws_def)
  from progressive_rows_status [OF e, of project ties]
  obtain rows where g: "generate_progressive_estimates project estimators pd ties = Inr rows"
    and len: "length rows = nat (pd_num_estimates pd)"
    and sq: "map estimate_sequence rows = map (\<lambda>i. int i + 1) [0..<length rows]"
    and sd: "map submitted_date rows =
      map (\<lambda>i. add_days (posted_date project) (int i * sd_days (pd_steps pd i)))
        [0..<length rows]"
    by (elim exE conjE)
  from progressive_classes [OF assms, of project ties] g
  have cl: "map aace_class rows = take (length rows) class_progression"
    by auto
  from len n have pos: "0 < length rows"
    by linarith
  then have ne: "rows \<noteq> []"
    by auto
  have "map estimate_sequence rows ! 0 = 1"
    unfolding sq using pos by simp
  then have h1: "estimate_sequence (hd rows) = 1"
    using ne by (simp add: hd_conv_nth)
  have "map aace_class rows ! 0 = ''class_5''"
    unfolding cl using pos by (simp add: class_progression_def)
  then have h2: "aace_class (hd rows) = ''class_5''"
    using ne by (simp add: hd_conv_nth)
  have "map submitted_date rows ! 0 = posted_date project"
    unfolding sd using pos by (simp add: add_days_zero)
  then have h3: "submitted_date (hd rows) = posted_date project"
    using ne by (simp add: hd_conv_nth)
  from g ne h1 h2 h3 sd show ?thesis
    by (intro exI [of _ rows] conjI) assumption+
qed

theorem first_estimate_on_posted_date_witness:
  "valid_prog_draws demo_estimators demo_prog_draws \<and>
   (\<exists>rows. generate_progressive_estimates demo_project demo_estimators demo_prog_draws ties_to_even = Inr rows \<and>
      submitted_date (hd rows) = \<lparr>ordinal = 739038, micros = 0\<rparr>)"
proof -
  from first_estimate_on_posted_date [OF valid_prog_draws_demo, of demo_project ties_to_even]
  obtain rows
    where g: "generate_progressive_estimates demo_project demo_estimators demo_prog_draws ties_to_even = Inr rows"
      and h: "submitted_date (hd rows) = posted_date demo_project"
    by (elim exE conjE)
  have "posted_date demo_project = \<lparr>ordinal = 739038, micros = 0\<rparr>"
    by (simp add: demo_project_def)
  with h have "submitted_date (hd rows) = \<lparr>ordinal = 739038, micros = 0\<rparr>"
    by simp
  with g valid_prog_draws_demo show ?thesis
    by (intro conjI exI [of _ rows]) assumption+
qed

lemma valid_late_then_early: "valid_prog_draws demo_estimators late_then_early_draws"
  by (simp add: valid_prog_draws_def demo_estimators_def late_then_early_draws_def
      MAX_PROGRESSIVE_ESTIMATES_def valid_step_draws_def demo_step_def unit_draw_def
      list_all_iff)

text \<open>
  Claim C2 says that the dates of a progressive sequence increase strictly, in steps
  of 7 to 21 days. The offset of a step is its index times a fresh draw and is not
  added to the date of the step before: with the draws 21 at step 1 and 7 at step 2,
  the three rows are dated 0, 21 and 14 days after the posted date, so the third row
  is dated a week before the second.
\<close>

theorem submitted_dates_out_of_order:
  "valid_prog_draws demo_estimators late_then_early_draws \<and>
   map_sum id (map (\<lambda>r. days_between (posted_date demo_project) (submitted_date r)))
     (generate_progressive_estimates demo_project demo_estimators late_then_early_draws ties_to_even)
     = Inr [0, 21, 14] \<and>
   map_sum id (sorted_wrt (\<lambda>a b. dt_less (submitted_date a) (submitted_date b)))
     (generate_progressive_estimates demo_project demo_estimators late_then_early_draws ties_to_even)
     = Inr False"
proof -
  have e: "pd_estimator late_then_early_draws < length demo_estimators"
    by (simp add: late_then_early_draws_def demo_estimators_def)
  from progressive_rows_status [OF e, of demo_project ties_to_even]
  obtain rows
    where g: "generate_progressive_estimates demo_project demo_estimators late_then_early_draws ties_to_even
        = Inr rows"
      and len: "length rows = nat (pd_num_estimates late_then_early_draws)"
      and sd: "map submitted_date rows =
        map (\<lambda>i. add_days (posted_date demo_project)
                   (int i * sd_days (pd_steps late_then_early_draws i))) [0..<length rows]"
    by (elim exE conjE)
  have l: "length rows = 3"
    using len by (simp add: late_then_early_draws_def)
  have dates: "map submitted_date rows =
      [\<lparr>ordinal = 739038, micros = 0\<rparr>, \<lparr>ordinal = 739059, micros = 0\<rparr>,
       \<lparr>ordinal = 739052, micros = 0\<rparr>]"
    unfolding sd l
    by (simp add: upt_rec late_then_early_draws_def demo_step_def demo_project_def add_days_def)
  have "map (days_between (posted_date demo_project)) (map submitted_date rows) = [0, 21, 14]"
    unfolding dates by (simp add: days_between_def demo_project_def)
  then have d: "map (\<lambda>r. days_between (posted_date demo_project) (submitted_date r)) rows
      = [0, 21, 14]"
    by (simp add: comp_def)
  have "\<not> sorted_wrt dt_less (map submitted_date rows)"
    unfolding dates by (simp add: dt_less_def)
  then have s: "\<not> sorted_wrt (\<lambda>a b. dt_less (submitted_date a) (submitted_date b)) rows"
    by (simp add: sorted_wrt_map)
  show ?thesis
    unfolding g using valid_late_then_early d s by simp
qed

section \<open>The static tables\<close>

lemma multipliers_positive: "list_all (\<lambda>(k, m). 0 < m) REGIONAL_COST_MULTIPLIERS"
  by (simp add: REGIONAL_COST_MULTIPLIERS_def)

lemma get_regional_multiplier_pos: "0 < get_regional_multiplier state"
proof (cases "map_of REGIONAL_COST_MULTIPLIERS state")
  case None
  then show ?thesis
    by (simp add: get_regional_multiplier_def)
next
  case (Some m)
  then have "(state, m) \<in> set REGIONAL_COST_MULTIPLIERS"
    by (rule map_of_SomeD)
  with multipliers_positive have "0 < m"
    by (auto simp: list_all_iff)
  with Some show ?thesis
    by (simp add: get_regional_multiplier_def)
qed

text \<open>
  Claim C8. In the class table, listed from class 5 to class 1, the confidence band
  of every later (more mature) class lies inside the band of every earlier one, the
  bands being [-50,100], [-30,50], [-20,30], [-15,20] and [-10,15], and the nominal
  engineering completion increases strictly. Looking up a region code that is not in
  the regional table gives the multiplier 1.0; every multiplier of the table, hence
  every multiplier returned, is positive.
\<close>

theorem static_tables:
  "map fst AACE_CLASSES = [''class_5'', ''class_4'', ''class_3'', ''class_2'', ''class_1''] \<and>
   map (\<lambda>(k, c). (confidence_low c, confidence_high c)) AACE_CLASSES =
     [(-50, 100), (-30, 50), (-20, 30), (-15, 20), (-10, 15)] \<and>
   sorted_wrt (\<lambda>a b. confidence_low (snd a) \<le> confidence_low (snd b) \<and>
                     confidence_high (snd b) \<le> confidence_high (snd a)) AACE_CLASSES \<and>
   sorted_wrt (\<lambda>a b. engineering_completion (snd a) < engineering_completion (snd b))
     AACE_CLASSES \<and>
   (map_of REGIONAL_COST_MULTIPLIERS state = None \<longrightarrow> get_regional_multiplier state = 1) \<and>
   list_all (\<lambda>(k, m). 0 < m) REGIONAL_COST_MULTIPLIERS \<and>
   0 < get_regional_multiplier state"
proof -
  have a: "map fst AACE_CLASSES = [''class_5'', ''class_4'', ''class_3'', ''class_2'', ''class_1'']"
    by (simp add: AACE_CLASSES_def)
  have b: "map (\<lambda>(k, c). (confidence_low c, confidence_high c)) AACE_CLASSES =
      [(-50, 100), (-30, 50), (-20, 30), (-15, 20), (-10, 15)]"
    by (simp add: AACE_CLASSES_def)
  have c: "sorted_wrt (\<lambda>a b. confidence_low (snd a) \<le> confidence_low (snd b) \<and>
                     confidence_high (snd b) \<le> confidence_high (snd a)) AACE_CLASSES"
    by (simp add: AACE_CLASSES_def)
  have d: "sorted_wrt (\<lambda>a b. engineering_completion (snd a) < engineering_completion (snd b))
     AACE_CLASSES"
    by (simp add: AACE_CLASSES_def)
  have e: "map_of REGIONAL_COST_MULTIPLIERS state = None \<longrightarrow> get_regional_multiplier state = 1"
    by (simp add: get_regional_multiplier_def)
  from a b c d e multipliers_positive get_regional_multiplier_pos [of state] show ?thesis
    by (intro conjI) assumption+
qed

theorem static_tables_witness:
  "map_of REGIONAL_COST_MULTIPLIERS ''ZZ'' = None \<and> get_regional_multiplier ''ZZ'' = 1"
proof -
  have n: "map_of REGIONAL_COST_MULTIPLIERS ''ZZ'' = None"
    by (simp add: REGIONAL_COST_MULTIPLIERS_def)
  from static_tables [of "''ZZ''"]
  have "map_of REGIONAL_COST_MULTIPLIERS ''ZZ'' = None \<longrightarrow> get_regional_multiplier ''ZZ'' = 1"
    by (elim conjE)
  with n show ?thesis
    by simp
qed

section \<open>Project budgets\<close>

lemma generate_project_row:
  assumes "pj_business d < length businesses" and "pj_city d < length MAJOR_CITIES"
  shows "\<exists>p. generate_project businesses d ties = Inr p \<and>
           project_id p = pj_uuid d \<and>
           posted_date p = pj_posted_date d \<and>
           project_state p = snd (MAJOR_CITIES ! pj_city d) \<and>
           regional_cost_multiplier p = get_regional_multiplier (project_state p) \<and>
           estimated_budget_min p =
             py_round (pj_lognormal d * regional_cost_multiplier p * 0.8) 2 ties \<and>
           estimated_budget_max p =
             py_round (pj_lognormal d * regional_cost_multiplier p * 1.2) 2 ties"
proof -
  obtain city state where cs: "MAJOR_CITIES ! pj_city d = (city, state)"
    by (cases "MAJOR_CITIES ! pj_city d")
  have c1: "choice businesses (pj_business d) = Inr (businesses ! pj_business d)"
    using assms(1) by (simp add: choice_def)
  have c2: "choice MAJOR_CITIES (pj_city d) = Inr (city, state)"
    using assms(2) cs by (simp add: choice_def)
  show ?thesis
    unfolding generate_project_def c1 c2 sum.case prod.case Let_def cs snd_conv
    by (rule exI, rule conjI, rule refl) simp
qed


lemma valid_project_draws_demo: "valid_project_draws demo_businesses demo_project_draws"
  by (simp add: valid_project_draws_def demo_businesses_def demo_project_draws_def
      MAJOR_CITIES_def)

lemma midpoint_error:
  fixes x y a :: real
  assumes "\<bar>x - 0.8 * a\<bar> \<le> 1/200" and "\<bar>y - 1.2 * a\<bar> \<le> 1/200"
  shows "\<bar>(x + y) / 2 - a\<bar> \<le> 1/200"
proof -
  from assms(1) have x: "x - 0.8 * a \<le> 1/200" "- (x - 0.8 * a) \<le> 1/200"
    unfolding abs_le_iff by blast+
  from assms(2) have y: "y - 1.2 * a \<le> 1/200" "- (y - 1.2 * a) \<le> 1/200"
    unfolding abs_le_iff by blast+
  have "(x + y) / 2 - a \<le> 1/200"
    using x(1) y(1) by (simp add: field_simps)
  moreover have "- ((x + y) / 2 - a) \<le> 1/200"
    using x(2) y(2) by (simp add: field_simps)
  ultimately show ?thesis
    unfolding abs_le_iff by (rule conjI)
qed



section \<open>Confidence intervals\<close>

lemma major_city_0: "choice MAJOR_CITIES 0 = Inr (''New York'', ''NY'')"
  by (simp add: choice_def MAJOR_CITIES_def)

lemma major_city_3: "choice MAJOR_CITIES 3 = Inr (''Houston'', ''TX'')"
  by (simp add: choice_def MAJOR_CITIES_def)

lemma multiplier_NY: "get_regional_multiplier ''NY'' = 1.35"
  by (simp add: get_regional_multiplier_def REGIONAL_COST_MULTIPLIERS_def)

lemma multiplier_TX: "get_regional_multiplier ''TX'' = 1"
  by (simp add: get_regional_multiplier_def REGIONAL_COST_MULTIPLIERS_def)

lemma generate_project_demo: "generate_project demo_businesses demo_project_draws ties = Inr demo_project"
proof -
  have c: "choice demo_businesses (pj_business demo_project_draws) = Inr \<lparr>business_id = ''b-1''\<rparr>"
    "choice MAJOR_CITIES (pj_city demo_project_draws) = Inr (''New York'', ''NY'')"
    using major_city_0 by (simp_all add: choice_def demo_businesses_def demo_project_draws_def)
  show ?thesis
    unfolding generate_project_def c sum.case prod.case multiplier_NY Let_def
    by (simp add: demo_project_draws_def demo_project_def py_round_def round_nearest_def)
qed

lemma generated_base_cost_nonneg:
  assumes "valid_project_draws businesses d" and "generate_project businesses d ties = Inr p"
  shows "0 \<le> base_cost_of p"
proof -
  from assms(1) have v: "pj_business d < length businesses" "pj_city d < length MAJOR_CITIES"
    and b: "0 < pj_lognormal d"
    by (simp_all add: valid_project_draws_def)
  from generate_project_row [OF v, of ties] assms(2)
  have m: "regional_cost_multiplier p = get_regional_multiplier (project_state p)"
    and lo: "estimated_budget_min p =
      py_round (pj_lognormal d * regional_cost_multiplier p * 0.8) 2 ties"
    and hi: "estimated_budget_max p =
      py_round (pj_lognormal d * regional_cost_multiplier p * 1.2) 2 ties"
    by auto
  have "0 < regional_cost_multiplier p"
    unfolding m by (rule get_regional_multiplier_pos)
  with b have "0 \<le> pj_lognormal d * regional_cost_multiplier p * 0.8"
    "0 \<le> pj_lognormal d * regional_cost_multiplier p * 1.2"
    by simp_all
  then have "0 \<le> estimated_budget_min p" "0 \<le> estimated_budget_max p"
    unfolding lo hi by (simp_all only: py_round_nonneg)
  then show ?thesis
    by (simp add: base_cost_of_def)
qed

lemma generate_project_succeeds:
  assumes "valid_project_draws businesses d"
  shows "\<exists>p. generate_project businesses d ties = Inr p"
proof -
  from assms have v: "pj_business d < length businesses" "pj_city d < length MAJOR_CITIES"
    by (simp_all add: valid_project_draws_def)
  from generate_project_row [OF v, of ties] show ?thesis
    by blast
qed

lemma bands_nested:
  assumes "a \<le> b" and "b < 5"
  shows "confidence_low (snd (AACE_CLASSES ! a)) \<le> confidence_low (snd (AACE_CLASSES ! b))"
    and "confidence_high (snd (AACE_CLASSES ! b)) \<le> confidence_high (snd (AACE_CLASSES ! a))"
proof -
  have s: "sorted_wrt (\<lambda>x y. confidence_low (snd x) \<le> confidence_low (snd y) \<and>
                     confidence_high (snd y) \<le> confidence_high (snd x)) AACE_CLASSES"
    by (simp add: AACE_CLASSES_def)
  have l: "length AACE_CLASSES = 5"
    by (simp add: AACE_CLASSES_def)
  have "confidence_low (snd (AACE_CLASSES ! a)) \<le> confidence_low (snd (AACE_CLASSES ! b)) \<and>
      confidence_high (snd (AACE_CLASSES ! b)) \<le> confidence_high (snd (AACE_CLASSES ! a))"
  proof (cases "a = b")
    case True
    then show ?thesis by simp
  next
    case False
    with assms have "a < b" "b < length AACE_CLASSES"
      using l by simp_all
    with s show ?thesis
      by (simp only: sorted_wrt_iff_nth_less)
  qed
  then show "confidence_low (snd (AACE_CLASSES ! a)) \<le> confidence_low (snd (AACE_CLASSES ! b))"
    and "confidence_high (snd (AACE_CLASSES ! b)) \<le> confidence_high (snd (AACE_CLASSES ! a))"
    by simp_all
qed

lemma interval_bounds_nested:
  fixes base :: real
  assumes "0 \<le> base" and "i \<le> j"
  shows "py_round (base * (1 + real_of_int (confidence_low (snd (AACE_CLASSES ! min i 4))) / 100)) 2 ties
       \<le> py_round (base * (1 + real_of_int (confidence_low (snd (AACE_CLASSES ! min j 4))) / 100)) 2 ties"
    and "py_round (base * (1 + real_of_int (confidence_high (snd (AACE_CLASSES ! min j 4))) / 100)) 2 ties
       \<le> py_round (base * (1 + real_of_int (confidence_high (snd (AACE_CLASSES ! min i 4))) / 100)) 2 ties"
proof -
  have a: "min i 4 \<le> min j 4" "min j 4 < 5"
    using assms(2) by simp_all
  note n = bands_nested [OF a]
  show "py_round (base * (1 + real_of_int (confidence_low (snd (AACE_CLASSES ! min i 4))) / 100)) 2 ties
       \<le> py_round (base * (1 + real_of_int (confidence_low (snd (AACE_CLASSES ! min j 4))) / 100)) 2 ties"
    using n(1) assms(1) by (intro py_round_mono mult_left_mono) simp_all
  show "py_round (base * (1 + real_of_int (confidence_high (snd (AACE_CLASSES ! min j 4))) / 100)) 2 ties
       \<le> py_round (base * (1 + real_of_int (confidence_high (snd (AACE_CLASSES ! min i 4))) / 100)) 2 ties"
    using n(2) assms(1) by (intro py_round_mono mult_left_mono) simp_all
qed

lemma progressive_rows_intervals:
  assumes "pd_estimator pd < length estimators"
    and "generate_progressive_estimates p estimators pd ties = Inr rows"
    and "i < length rows"
  shows "confidence_interval_low (rows ! i) =
      py_round (base_cost_of p *
        (1 + real_of_int (confidence_low (snd (AACE_CLASSES ! min i 4))) / 100)) 2 ties"
    and "confidence_interval_high (rows ! i) =
      py_round (base_cost_of p *
        (1 + real_of_int (confidence_high (snd (AACE_CLASSES ! min i 4))) / 100)) 2 ties"
proof -
  from generate_progressive_rows [OF assms(1), of p ties] assms(2,3)
  have r: "progressive_estimate p (estimators ! pd_estimator pd) (pd_num_estimates pd) i
      (pd_steps pd i) ties = Inr (rows ! i)"
    by auto
  from progressive_estimate_row [of p "estimators ! pd_estimator pd" "pd_num_estimates pd" i
      "pd_steps pd i" ties] r
  show "confidence_interval_low (rows ! i) =
      py_round (base_cost_of p *
        (1 + real_of_int (confidence_low (snd (AACE_CLASSES ! min i 4))) / 100)) 2 ties"
    and "confidence_interval_high (rows ! i) =
      py_round (base_cost_of p *
        (1 + real_of_int (confidence_high (snd (AACE_CLASSES ! min i 4))) / 100)) 2 ties"
    by auto
qed

lemma progressive_widths_sorted:
  assumes "0 \<le> base_cost_of p" and "pd_estimator pd < length estimators"
    and "generate_progressive_estimates p estimators pd ties = Inr rows"
  shows "sorted_wrt (\<lambda>a b. ci_width b \<le> ci_width a) rows"
  unfolding sorted_wrt_iff_nth_less
proof (intro allI impI)
  fix i j assume ij: "i < j" "j < length rows"
  then have i: "i < length rows" and le: "i \<le> j"
    by simp_all
  note li = progressive_rows_intervals [OF assms(2,3) i]
  note lj = progressive_rows_intervals [OF assms(2,3) ij(2)]
  note nb = interval_bounds_nested [OF assms(1) le, of ties]
  show "ci_width (rows ! j) \<le> ci_width (rows ! i)"
    unfolding ci_width_def li lj using nb by linarith
qed


text \<open>
  Claim C3. Along a progressive sequence generated for a generated project, the width
  of the confidence interval (high minus low) never increases: for all steps
  \<open>i < j\<close> of the sequence the width at \<open>j\<close> is at most the width at \<open>i\<close>.
\<close>

theorem confidence_width_narrows:
  assumes "valid_project_draws businesses d" and "valid_prog_draws estimators pd"
  shows "\<exists>project rows. generate_project businesses d ties = Inr project \<and>
           generate_progressive_estimates project estimators pd ties = Inr rows \<and>
           sorted_wrt (\<lambda>a b. ci_width b \<le> ci_width a) rows"
proof -
  from generate_project_succeeds [OF assms(1), of ties]
  obtain p where g: "generate_project businesses d ties = Inr p"
    by blast
  have b: "0 \<le> base_cost_of p"
    using assms(1) g by (rule generated_base_cost_nonneg)
  from assms(2) have e: "pd_estimator pd < length estimators"
    by (simp add: valid_prog_draws_def)
  from generate_progressive_rows [OF e, of p ties]
  obtain rows where r: "generate_progressive_estimates p estimators pd ties = Inr rows"
    by blast
  have "sorted_wrt (\<lambda>a b. ci_width b \<le> ci_width a) rows"
    using b e r by (rule progressive_widths_sorted)
  with g r show ?thesis
    by (intro exI [of _ p] exI [of _ rows] conjI) assumption+
qed

theorem confidence_width_narrows_witness:
  "valid_project_draws demo_businesses demo_project_draws \<and>
   valid_prog_draws demo_estimators demo_prog_draws \<and>
   (\<exists>rows. generate_progressive_estimates demo_project demo_estimators demo_prog_draws ties_to_even = Inr rows \<and>
      sorted_wrt (\<lambda>a b. ci_width b \<le> ci_width a) rows)"
proof -
  from confidence_width_narrows [OF valid_project_draws_demo valid_prog_draws_demo, of ties_to_even]
  obtain p rows where g: "generate_project demo_businesses demo_project_draws ties_to_even = Inr p"
    and r: "generate_progressive_estimates p demo_estimators demo_prog_draws ties_to_even = Inr rows"
    and s: "sorted_wrt (\<lambda>a b. ci_width b \<le> ci_width a) rows"
    by (elim exE conjE)
  from g have "p = demo_project"
    unfolding generate_project_demo by simp
  with r have "generate_progressive_estimates demo_project demo_estimators demo_prog_draws ties_to_even
      = Inr rows"
    by simp
  with s valid_project_draws_demo valid_prog_draws_demo show ?thesis
    by (intro conjI exI [of _ rows]) assumption+
qed

section \<open>The cost model of a row\<close>

lemma generate_project_houston:
  "generate_project demo_businesses houston_project_draws ties = Inr houston_project"
proof -
  have c: "choice demo_businesses (pj_business houston_project_draws) = Inr \<lparr>business_id = ''b-1''\<rparr>"
    "choice MAJOR_CITIES (pj_city houston_project_draws) = Inr (''Houston'', ''TX'')"
    using major_city_3
    by (simp_all add: choice_def demo_businesses_def demo_project_draws_def
        houston_project_draws_def)
  show ?thesis
    unfolding generate_project_def c sum.case prod.case multiplier_TX Let_def
    by (simp add: demo_project_draws_def houston_project_draws_def houston_project_def
        py_round_def round_nearest_def)
qed

lemma generate_project_cents:
  "generate_project demo_businesses cents_project_draws ties = Inr cents_project"
proof -
  have c: "choice demo_businesses (pj_business cents_project_draws) = Inr \<lparr>business_id = ''b-1''\<rparr>"
    "choice MAJOR_CITIES (pj_city cents_project_draws) = Inr (''Houston'', ''TX'')"
    using major_city_3
    by (simp_all add: choice_def demo_businesses_def demo_project_draws_def
        cents_project_draws_def)
  show ?thesis
    unfolding generate_project_def c sum.case prod.case multiplier_TX Let_def
    by (simp add: demo_project_draws_def cents_project_draws_def cents_project_def
        houston_project_def py_round_def round_nearest_def)
qed

lemma uniform_bounds:
  assumes "unit_draw u" and "a \<le> b"
  shows "a \<le> uniform a b u" and "uniform a b u \<le> b"
proof -
  from assms have u: "0 \<le> u" "u \<le> 1" and d: "0 \<le> b - a"
    by (simp_all add: unit_draw_def)
  have "0 \<le> (b - a) * u"
    using d u(1) by (rule mult_nonneg_nonneg)
  then show "a \<le> uniform a b u"
    by (simp add: uniform_def)
  have "(b - a) * u \<le> (b - a) * 1"
    using u(2) d by (rule mult_left_mono)
  then show "uniform a b u \<le> b"
    by (simp add: uniform_def)
qed

lemma class_table_bounds:
  assumes "k < 5"
  shows "-50 \<le> confidence_low (snd (AACE_CLASSES ! k))"
    and "confidence_low (snd (AACE_CLASSES ! k)) \<le> confidence_high (snd (AACE_CLASSES ! k))"
    and "5 \<le> typical_contingency (snd (AACE_CLASSES ! k))"
proof -
  from assms have "k \<in> {0, 1, 2, 3, 4}"
    by auto
  then show "-50 \<le> confidence_low (snd (AACE_CLASSES ! k))"
    and "confidence_low (snd (AACE_CLASSES ! k)) \<le> confidence_high (snd (AACE_CLASSES ! k))"
    and "5 \<le> typical_contingency (snd (AACE_CLASSES ! k))"
    by (auto simp: AACE_CLASSES_def)
qed


lemma sampled_cost_bounds:
  assumes "k < 5" and "unit_draw u" and "0 \<le> base"
  defines "c \<equiv> snd (AACE_CLASSES ! k)"
  shows "base * (1 + real_of_int (confidence_low c) / 100) \<le> sampled_cost base c u"
    and "sampled_cost base c u \<le> base * (1 + real_of_int (confidence_high c) / 100)"
    and "base / 2 \<le> sampled_cost base c u"
proof -
  let ?lo = "real_of_int (confidence_low c) / 100"
  let ?hi = "real_of_int (confidence_high c) / 100"
  have "confidence_low c \<le> confidence_high c" and m: "-50 \<le> confidence_low c"
    unfolding c_def using assms(1) by (rule class_table_bounds)+
  then have le: "?lo \<le> ?hi"
    by (simp add: divide_right_mono)
  note ub = uniform_bounds [OF assms(2) le]
  from ub(1) have "1 + ?lo \<le> 1 + uniform ?lo ?hi u"
    by simp
  then show l: "base * (1 + ?lo) \<le> sampled_cost base c u"
    unfolding sampled_cost_def using assms(3) by (rule mult_left_mono)
  from ub(2) have "1 + uniform ?lo ?hi u \<le> 1 + ?hi"
    by simp
  then show "sampled_cost base c u \<le> base * (1 + ?hi)"
    unfolding sampled_cost_def using assms(3) by (rule mult_left_mono)
  from m have "real_of_int (-50) \<le> real_of_int (confidence_low c)"
    by (simp only: of_int_le_iff)
  then have "(1::real) / 2 \<le> 1 + ?lo"
    by simp
  then have "base * (1 / 2) \<le> base * (1 + ?lo)"
    using assms(3) by (rule mult_left_mono)
  with l show "base / 2 \<le> sampled_cost base c u"
    by simp
qed

lemma interval_contains_estimate:
  assumes "k < 5" and "unit_draw u" and "0 \<le> base"
  defines "c \<equiv> snd (AACE_CLASSES ! k)"
  shows "py_round (base * (1 + real_of_int (confidence_low c) / 100)) 2 ties
       \<le> py_round (sampled_cost base c u) 2 ties"
    and "py_round (sampled_cost base c u) 2 ties
       \<le> py_round (base * (1 + real_of_int (confidence_high c) / 100)) 2 ties"
  unfolding c_def
  by (rule py_round_mono, rule sampled_cost_bounds [OF assms(1-3)])+

lemma component_nonneg:
  assumes "0 \<le> cost" and "unit_draw v" and "0 \<le> a" and "a \<le> b"
  shows "0 \<le> py_round (cost * uniform a b v) 2 ties"
proof -
  from uniform_bounds(1) [OF assms(2,4)] assms(3) have "0 \<le> uniform a b v"
    by linarith
  with assms(1) have "0 \<le> cost * uniform a b v"
    by (rule mult_nonneg_nonneg)
  then show ?thesis
    by (rule py_round_nonneg)
qed

lemma component_pos:
  assumes "1031/10000 \<le> cost" and "unit_draw v" and "1/20 \<le> a" and "a \<le> b"
  shows "0 < py_round (cost * uniform a b v) 2 ties"
proof -
  from uniform_bounds(1) [OF assms(2,4)] assms(3) have f: "1/20 \<le> uniform a b v"
    by linarith
  have c0: "0 \<le> cost"
    using assms(1) by simp
  have "(1031/10000) * (1/20) \<le> cost * uniform a b v"
    by (rule mult_mono [OF assms(1) f c0]) simp
  then have "1/200 < cost * uniform a b v"
    by simp
  then show ?thesis
    by (rule py_round_pos)
qed

lemma contingency_at_least_3:
  assumes "k < 5" and "unit_draw w"
  shows "3 \<le> py_round (typical_contingency (snd (AACE_CLASSES ! k)) + uniform (-2) 2 w) 2 ties"
proof -
  have "5 \<le> typical_contingency (snd (AACE_CLASSES ! k))"
    using assms(1) by (rule class_table_bounds)
  moreover have "-2 \<le> uniform (-2) 2 w"
    using assms(2) by (rule uniform_bounds) simp
  ultimately have "of_int 3 \<le> typical_contingency (snd (AACE_CLASSES ! k)) + uniform (-2) 2 w"
    by simp
  then have "of_int 3 \<le>
      py_round (typical_contingency (snd (AACE_CLASSES ! k)) + uniform (-2) 2 w) 2 ties"
    by (rule py_round_ge_int)
  then show ?thesis
    by simp
qed


lemma aace_lookup_key:
  assumes "k < 5"
  shows "aace_lookup (fst (AACE_CLASSES ! k)) = Inr (snd (AACE_CLASSES ! k))"
proof -
  from assms have "k \<in> {0, 1, 2, 3, 4}"
    by auto
  then show ?thesis
    by (auto simp: aace_lookup_def AACE_CLASSES_def)
qed

lemma single_estimate_row:
  fixes p e d
  assumes "bd_class d < length AACE_CLASSES" and "bd_method d < length ESTIMATION_METHODS"
  defines "c \<equiv> snd (AACE_CLASSES ! bd_class d)"
  defines "cost \<equiv> sampled_cost (base_cost_of p) c (bd_variance d)"
  shows "\<exists>r. single_estimate p e d ties = Inr r \<and>
           aace_class r = fst (AACE_CLASSES ! bd_class d) \<and>
           estimate_sequence r = 1 \<and>
           status r = (if 0.7 < bd_status d then ''accepted'' else ''pending'') \<and>
           submitted_date r = add_days (posted_date p) (bd_days d) \<and>
           confidence_interval_low r =
             py_round (base_cost_of p * (1 + real_of_int (confidence_low c) / 100)) 2 ties \<and>
           confidence_interval_high r =
             py_round (base_cost_of p * (1 + real_of_int (confidence_high c) / 100)) 2 ties \<and>
           estimated_total_cost r = py_round cost 2 ties \<and>
           labor_cost r = py_round (cost * uniform 0.3 0.45 (bd_labor d)) 2 ties \<and>
           materials_cost r = py_round (cost * uniform 0.25 0.40 (bd_materials d)) 2 ties \<and>
           equipment_cost r = py_round (cost * uniform 0.05 0.15 (bd_equipment d)) 2 ties \<and>
           subcontractor_cost r = py_round (cost * uniform 0.10 0.25 (bd_subcontractor d)) 2 ties \<and>
           overhead_cost r = py_round (cost * uniform 0.08 0.15 (bd_overhead d)) 2 ties \<and>
           profit_margin r = py_round (cost * uniform 0.05 0.12 (bd_profit d)) 2 ties \<and>
           contingency_percent r =
             py_round (typical_contingency c + uniform (-2) 2 (bd_contingency d)) 2 ties"
proof -
  have k: "bd_class d < 5"
    using assms(1) by (simp add: AACE_CLASSES_def)
  have c1: "choice (map fst AACE_CLASSES) (bd_class d) = Inr (fst (AACE_CLASSES ! bd_class d))"
    using assms(1) by (simp add: choice_def)
  have l: "aace_lookup (fst (AACE_CLASSES ! bd_class d)) = Inr c"
    unfolding c_def using k by (rule aace_lookup_key)
  have c2: "choice ESTIMATION_METHODS (bd_method d) = Inr (ESTIMATION_METHODS ! bd_method d)"
    using assms(2) by (simp add: choice_def)
  show ?thesis
    unfolding single_estimate_def Let_def c1 c2 l sum.case cost_def sampled_cost_def
    by (rule exI, rule conjI, rule refl) simp
qed


lemma amounts_properties:
  fixes r :: estimate and base :: real
  assumes k: "k < 5"
    and u: "unit_draw u" "unit_draw v1" "unit_draw v2" "unit_draw v3" "unit_draw v4"
      "unit_draw v5" "unit_draw v6"
  defines "cost \<equiv> sampled_cost base (snd (AACE_CLASSES ! k)) u"
  assumes cols: "estimated_total_cost r = py_round cost 2 ties"
      "labor_cost r = py_round (cost * uniform 0.3 0.45 v1) 2 ties"
      "materials_cost r = py_round (cost * uniform 0.25 0.40 v2) 2 ties"
      "equipment_cost r = py_round (cost * uniform 0.05 0.15 v3) 2 ties"
      "subcontractor_cost r = py_round (cost * uniform 0.10 0.25 v4) 2 ties"
      "overhead_cost r = py_round (cost * uniform 0.08 0.15 v5) 2 ties"
      "profit_margin r = py_round (cost * uniform 0.05 0.12 v6) 2 ties"
  shows "0 \<le> base \<Longrightarrow> list_all (\<lambda>x. 0 \<le> x) (amounts r)"
    and "1031/5000 \<le> base \<Longrightarrow> list_all (\<lambda>x. 0 < x) (amounts r)"
proof -
  assume b: "0 \<le> base"
  from sampled_cost_bounds(3) [OF k u(1) b] b have c: "0 \<le> cost"
    unfolding cost_def by simp
  have "0 \<le> py_round cost 2 ties"
    using c by (rule py_round_nonneg)
  moreover have "0 \<le> py_round (cost * uniform 0.3 0.45 v1) 2 ties"
    using c u(2) by (rule component_nonneg) simp_all
  moreover have "0 \<le> py_round (cost * uniform 0.25 0.40 v2) 2 ties"
    using c u(3) by (rule component_nonneg) simp_all
  moreover have "0 \<le> py_round (cost * uniform 0.05 0.15 v3) 2 ties"
    using c u(4) by (rule component_nonneg) simp_all
  moreover have "0 \<le> py_round (cost * uniform 0.10 0.25 v4) 2 ties"
    using c u(5) by (rule component_nonneg) simp_all
  moreover have "0 \<le> py_round (cost * uniform 0.08 0.15 v5) 2 ties"
    using c u(6) by (rule component_nonneg) simp_all
  moreover have "0 \<le> py_round (cost * uniform 0.05 0.12 v6) 2 ties"
    using c u(7) by (rule component_nonneg) simp_all
  ultimately show "list_all (\<lambda>x. 0 \<le> x) (amounts r)"
    unfolding amounts_def cols by simp
next
  assume b: "1031/5000 \<le> base"
  then have b0: "0 \<le> base"
    by simp
  from sampled_cost_bounds(3) [OF k u(1) b0] b have c: "1031/10000 \<le> cost"
    unfolding cost_def by simp
  then have "1/200 < cost"
    by simp
  then have "0 < py_round cost 2 ties"
    by (rule py_round_pos)
  moreover have "0 < py_round (cost * uniform 0.3 0.45 v1) 2 ties"
    using c u(2) by (rule component_pos) simp_all
  moreover have "0 < py_round (cost * uniform 0.25 0.40 v2) 2 ties"
    using c u(3) by (rule component_pos) simp_all
  moreover have "0 < py_round (cost * uniform 0.05 0.15 v3) 2 ties"
    using c u(4) by (rule component_pos) simp_all
  moreover have "0 < py_round (cost * uniform 0.10 0.25 v4) 2 ties"
    using c u(5) by (rule component_pos) simp_all
  moreover have "0 < py_round (cost * uniform 0.08 0.15 v5) 2 ties"
    using c u(6) by (rule component_pos) simp_all
  moreover have "0 < py_round (cost * uniform 0.05 0.12 v6) 2 ties"
    using c u(7) by (rule component_pos) simp_all
  ultimately show "list_all (\<lambda>x. 0 < x) (amounts r)"
    unfolding amounts_def cols by simp
qed

lemma interval_properties:
  fixes r :: estimate
  assumes k: "k < 5" and u: "unit_draw u" and b: "0 \<le> base_cost_of p"
  defines "c \<equiv> snd (AACE_CLASSES ! k)"
  assumes cols: "aace_lookup (aace_class r) = Inr c"
      "confidence_interval_low r =
         py_round (base_cost_of p * (1 + real_of_int (confidence_low c) / 100)) 2 ties"
      "confidence_interval_high r =
         py_round (base_cost_of p * (1 + real_of_int (confidence_high c) / 100)) 2 ties"
      "estimated_total_cost r = py_round (sampled_cost (base_cost_of p) c u) 2 ties"
  shows "interval_from_class ties p r"
  unfolding interval_from_class_def cols sum.case
  using interval_contains_estimate [OF k u b, of ties] unfolding c_def by simp

lemma progressive_rows_columns:
  fixes p estimators pd rows i
  defines "d \<equiv> pd_steps pd i"
  defines "c \<equiv> snd (AACE_CLASSES ! min i 4)"
  defines "cost \<equiv> sampled_cost (base_cost_of p) c (sd_variance d)"
  assumes "pd_estimator pd < length estimators"
    and "generate_progressive_estimates p estimators pd ties = Inr rows"
    and "i < length rows"
  shows "aace_lookup (aace_class (rows ! i)) = Inr c"
    and "confidence_interval_low (rows ! i) =
      py_round (base_cost_of p * (1 + real_of_int (confidence_low c) / 100)) 2 ties"
    and "confidence_interval_high (rows ! i) =
      py_round (base_cost_of p * (1 + real_of_int (confidence_high c) / 100)) 2 ties"
    and "estimated_total_cost (rows ! i) = py_round cost 2 ties"
    and "labor_cost (rows ! i) = py_round (cost * uniform 0.3 0.45 (sd_labor d)) 2 ties"
    and "materials_cost (rows ! i) = py_round (cost * uniform 0.25 0.40 (sd_materials d)) 2 ties"
    and "equipment_cost (rows ! i) = py_round (cost * uniform 0.05 0.15 (sd_equipment d)) 2 ties"
    and "subcontractor_cost (rows ! i) =
      py_round (cost * uniform 0.10 0.25 (sd_subcontractor d)) 2 ties"
    and "overhead_cost (rows ! i) = py_round (cost * uniform 0.08 0.15 (sd_overhead d)) 2 ties"
    and "profit_margin (rows ! i) = py_round (cost * uniform 0.05 0.12 (sd_profit d)) 2 ties"
    and "contingency_percent (rows ! i) =
      py_round (typical_contingency c + uniform (-2) 2 (sd_contingency d)) 2 ties"
proof -
  from generate_progressive_rows [OF assms(4), of p ties] assms(5,6)
  have r: "progressive_estimate p (estimators ! pd_estimator pd) (pd_num_estimates pd) i
      (pd_steps pd i) ties = Inr (rows ! i)"
    by auto
  from progressive_estimate_row [of p "estimators ! pd_estimator pd" "pd_num_estimates pd" i
      "pd_steps pd i" ties]
  obtain r' where e: "progressive_estimate p (estimators ! pd_estimator pd) (pd_num_estimates pd)
        i (pd_steps pd i) ties = Inr r'"
    and cl: "aace_class r' = class_progression ! min i 4"
    and f: "confidence_interval_low r' =
        py_round (base_cost_of p * (1 + real_of_int (confidence_low c) / 100)) 2 ties"
      "confidence_interval_high r' =
        py_round (base_cost_of p * (1 + real_of_int (confidence_high c) / 100)) 2 ties"
      "estimated_total_cost r' = py_round cost 2 ties"
      "labor_cost r' = py_round (cost * uniform 0.3 0.45 (sd_labor d)) 2 ties"
      "materials_cost r' = py_round (cost * uniform 0.25 0.40 (sd_materials d)) 2 ties"
      "equipment_cost r' = py_round (cost * uniform 0.05 0.15 (sd_equipment d)) 2 ties"
      "subcontractor_cost r' = py_round (cost * uniform 0.10 0.25 (sd_subcontractor d)) 2 ties"
      "overhead_cost r' = py_round (cost * uniform 0.08 0.15 (sd_overhead d)) 2 ties"
      "profit_margin r' = py_round (cost * uniform 0.05 0.12 (sd_profit d)) 2 ties"
      "contingency_percent r' =
        py_round (typical_contingency c + uniform (-2) 2 (sd_contingency d)) 2 ties"
    unfolding c_def cost_def d_def by (elim exE conjE)
  from e r have eq: "r' = rows ! i"
    by simp
  have "min i 4 < 5"
    by simp
  then have "aace_lookup (class_progression ! min i 4) = Inr c"
    unfolding c_def by (rule aace_lookup_progression)
  then show "aace_lookup (aace_class (rows ! i)) = Inr c"
    using cl eq by simp
  show "confidence_interval_low (rows ! i) =
      py_round (base_cost_of p * (1 + real_of_int (confidence_low c) / 100)) 2 ties"
    and "confidence_interval_high (rows ! i) =
      py_round (base_cost_of p * (1 + real_of_int (confidence_high c) / 100)) 2 ties"
    and "estimated_total_cost (rows ! i) = py_round cost 2 ties"
    and "labor_cost (rows ! i) = py_round (cost * uniform 0.3 0.45 (sd_labor d)) 2 ties"
    and "materials_cost (rows ! i) = py_round (cost * uniform 0.25 0.40 (sd_materials d)) 2 ties"
    and "equipment_cost (rows ! i) = py_round (cost * uniform 0.05 0.15 (sd_equipment d)) 2 ties"
    and "subcontractor_cost (rows ! i) =
      py_round (cost * uniform 0.10 0.25 (sd_subcontractor d)) 2 ties"
    and "overhead_cost (rows ! i) = py_round (cost * uniform 0.08 0.15 (sd_overhead d)) 2 ties"
    and "profit_margin (rows ! i) = py_round (cost * uniform 0.05 0.12 (sd_profit d)) 2 ties"
    and "contingency_percent (rows ! i) =
      py_round (typical_contingency c + uniform (-2) 2 (sd_contingency d)) 2 ties"
    using f unfolding eq by blast+
qed


lemma progressive_row_checks:
  assumes e: "pd_estimator pd < length estimators"
    and g: "generate_progressive_estimates p estimators pd ties = Inr rows"
    and i: "i < length rows"
    and v: "valid_step_draws (pd_steps pd i)"
  shows "0 \<le> base_cost_of p \<Longrightarrow> interval_from_class ties p (rows ! i)"
    and "0 \<le> base_cost_of p \<Longrightarrow> list_all (\<lambda>x. 0 \<le> x) (amounts (rows ! i))"
    and "1031/5000 \<le> base_cost_of p \<Longrightarrow> list_all (\<lambda>x. 0 < x) (amounts (rows ! i))"
    and "3 \<le> contingency_percent (rows ! i)"
proof -
  note c = progressive_rows_columns [OF e g i]
  have k: "min i 4 < 5"
    by simp
  from v have u: "unit_draw (sd_variance (pd_steps pd i))"
    "unit_draw (sd_labor (pd_steps pd i))" "unit_draw (sd_materials (pd_steps pd i))"
    "unit_draw (sd_equipment (pd_steps pd i))" "unit_draw (sd_subcontractor (pd_steps pd i))"
    "unit_draw (sd_overhead (pd_steps pd i))" "unit_draw (sd_profit (pd_steps pd i))"
    and w: "unit_draw (sd_contingency (pd_steps pd i))"
    by (simp_all add: valid_step_draws_def)
  show "interval_from_class ties p (rows ! i)" if "0 \<le> base_cost_of p"
    using k u(1) that c(1-4) by (rule interval_properties)
  show "list_all (\<lambda>x. 0 \<le> x) (amounts (rows ! i))" if "0 \<le> base_cost_of p"
    using k u c(4-10) that by (rule amounts_properties(1))
  show "list_all (\<lambda>x. 0 < x) (amounts (rows ! i))" if "1031/5000 \<le> base_cost_of p"
    using k u c(4-10) that by (rule amounts_properties(2))
  show "3 \<le> contingency_percent (rows ! i)"
    unfolding c(11) using k w by (rule contingency_at_least_3)
qed

lemma valid_prog_draws_step:
  assumes "valid_prog_draws estimators pd" and "i < nat (pd_num_estimates pd)"
  shows "valid_step_draws (pd_steps pd i)"
  using assms by (simp add: valid_prog_draws_def list_all_iff)

lemma progressive_checks:
  assumes v: "valid_prog_draws estimators pd"
  shows "\<exists>rows. generate_progressive_estimates p estimators pd ties = Inr rows \<and>
           (0 \<le> base_cost_of p \<longrightarrow> list_all (interval_from_class ties p) rows) \<and>
           (0 \<le> base_cost_of p \<longrightarrow> list_all (\<lambda>r. list_all (\<lambda>x. 0 \<le> x) (amounts r)) rows) \<and>
           (1031/5000 \<le> base_cost_of p \<longrightarrow> list_all (\<lambda>r. list_all (\<lambda>x. 0 < x) (amounts r)) rows) \<and>
           list_all (\<lambda>r. 3 \<le> contingency_percent r) rows"
proof -
  from v have e: "pd_estimator pd < length estimators"
    by (simp add: valid_prog_draws_def)
  from generate_progressive_rows [OF e, of p ties]
  obtain rows where g: "generate_progressive_estimates p estimators pd ties = Inr rows"
    and len: "length rows = nat (pd_num_estimates pd)"
    by blast
  have s: "valid_step_draws (pd_steps pd i)" if "i < length rows" for i
    using v that unfolding len by (rule valid_prog_draws_step)
  note ch = progressive_row_checks [OF e g _ s]
  have a: "0 \<le> base_cost_of p \<longrightarrow> list_all (interval_from_class ties p) rows"
    unfolding list_all_length using ch(1) by blast
  have b: "0 \<le> base_cost_of p \<longrightarrow> list_all (\<lambda>r. list_all (\<lambda>x. 0 \<le> x) (amounts r)) rows"
    unfolding list_all_length [of _ rows] using ch(2) by blast
  have c: "1031/5000 \<le> base_cost_of p \<longrightarrow> list_all (\<lambda>r. list_all (\<lambda>x. 0 < x) (amounts r)) rows"
    unfolding list_all_length [of _ rows] using ch(3) by blast
  have d: "list_all (\<lambda>r. 3 \<le> contingency_percent r) rows"
    unfolding list_all_length using ch(4) by blast
  from g a b c d show ?thesis
    by (intro exI [of _ rows] conjI) assumption+
qed


lemma map_enumerate:
  "map (\<lambda>(i, x). f i x) (enumerate 0 xs) = map (\<lambda>i. f i (xs ! i)) [0..<length xs]"
  by (rule nth_equalityI) (simp_all add: nth_enumerate_eq)

lemma valid_bid_draws_nth:
  assumes "valid_estimate_draws estimators ed" and "\<not> ed_mode ed < PROGRESSIVE_ESTIMATE_RATE"
    and "i < length (ed_sample ed)"
  shows "valid_bid_draws (ed_bids ed i)"
  using assms by (simp add: valid_estimate_draws_def list_all_iff)

lemma single_rows:
  assumes nm: "\<not> ed_mode ed < PROGRESSIVE_ESTIMATE_RATE"
    and v: "valid_estimate_draws estimators ed"
  shows "\<exists>rows. project_estimates p estimators ed ties = Inr rows \<and>
           length rows = length (ed_sample ed) \<and>
           (\<forall>i<length rows.
              single_estimate p (estimators ! (ed_sample ed ! i)) (ed_bids ed i) ties = Inr (rows ! i))"
proof -
  let ?k = "min (ed_num_estimates ed) (int (length estimators))"
  let ?f = "\<lambda>i. single_estimate p (estimators ! (ed_sample ed ! i)) (ed_bids ed i) ties"
  let ?n = "length (ed_sample ed)"
  from v nm have n: "1 \<le> ed_num_estimates ed"
    and l: "int (length (ed_sample ed)) = ?k"
    and d: "distinct (ed_sample ed)"
    and r: "list_all (\<lambda>i. i < length estimators) (ed_sample ed)"
    by (simp_all add: valid_estimate_draws_def)
  have k: "\<not> (?k < 0 \<or> int (length estimators) < ?k)"
    using n by simp
  have sm: "sample estimators ?k (ed_sample ed) = Inr (map (\<lambda>i. estimators ! i) (ed_sample ed))"
    unfolding sample_def using k l d r by simp
  define rows where "rows = map (\<lambda>i. projr (?f i)) [0..<?n]"
  have "?f i = Inr (projr (?f i))" if "i < ?n" for i
  proof -
    from valid_bid_draws_nth [OF v nm that]
    have "bd_class (ed_bids ed i) < length AACE_CLASSES"
      "bd_method (ed_bids ed i) < length ESTIMATION_METHODS"
      by (simp_all add: valid_bid_draws_def)
    from single_estimate_row [OF this, of p "estimators ! (ed_sample ed ! i)" ties]
    show ?thesis
      by auto
  qed
  then have m: "map ?f [0..<?n] = map Inr rows"
    unfolding rows_def by (simp add: comp_def)
  have m2: "map (\<lambda>i. single_estimate p (map (\<lambda>i. estimators ! i) (ed_sample ed) ! i)
                      (ed_bids ed i) ties) [0..<?n] = map ?f [0..<?n]"
    by (rule map_cong) simp_all
  have "project_estimates p estimators ed ties = Inr rows"
    unfolding project_estimates_def Let_def using nm
    by (simp add: sm map_enumerate m2 m collect_Inr)
  moreover have len: "length rows = ?n"
    by (simp add: rows_def)
  moreover have "?f i = Inr (rows ! i)" if "i < length rows" for i
  proof -
    have "map ?f [0..<?n] ! i = map Inr rows ! i"
      using m by simp
    then show ?thesis
      using that len by simp
  qed
  ultimately show ?thesis
    by blast
qed


lemma single_row_checks:
  assumes k: "bd_class d < length AACE_CLASSES" and me: "bd_method d < length ESTIMATION_METHODS"
    and v: "valid_bid_draws d"
    and r: "single_estimate p e d ties = Inr r"
  shows "0 \<le> base_cost_of p \<Longrightarrow> interval_from_class ties p r"
    and "0 \<le> base_cost_of p \<Longrightarrow> list_all (\<lambda>x. 0 \<le> x) (amounts r)"
    and "1031/5000 \<le> base_cost_of p \<Longrightarrow> list_all (\<lambda>x. 0 < x) (amounts r)"
    and "3 \<le> contingency_percent r"
proof -
  let ?c = "snd (AACE_CLASSES ! bd_class d)"
  let ?cost = "sampled_cost (base_cost_of p) ?c (bd_variance d)"
  from single_estimate_row [OF k me, of p e ties]
  obtain r' where e: "single_estimate p e d ties = Inr r'"
    and cl: "aace_class r' = fst (AACE_CLASSES ! bd_class d)"
    and f: "confidence_interval_low r' =
        py_round (base_cost_of p * (1 + real_of_int (confidence_low ?c) / 100)) 2 ties"
      "confidence_interval_high r' =
        py_round (base_cost_of p * (1 + real_of_int (confidence_high ?c) / 100)) 2 ties"
      "estimated_total_cost r' = py_round ?cost 2 ties"
      "labor_cost r' = py_round (?cost * uniform 0.3 0.45 (bd_labor d)) 2 ties"
      "materials_cost r' = py_round (?cost * uniform 0.25 0.40 (bd_materials d)) 2 ties"
      "equipment_cost r' = py_round (?cost * uniform 0.05 0.15 (bd_equipment d)) 2 ties"
      "subcontractor_cost r' = py_round (?cost * uniform 0.10 0.25 (bd_subcontractor d)) 2 ties"
      "overhead_cost r' = py_round (?cost * uniform 0.08 0.15 (bd_overhead d)) 2 ties"
      "profit_margin r' = py_round (?cost * uniform 0.05 0.12 (bd_profit d)) 2 ties"
      "contingency_percent r' =
        py_round (typical_contingency ?c + uniform (-2) 2 (bd_contingency d)) 2 ties"
    by (elim exE conjE)
  from e r have eq: "r' = r"
    by simp
  note c = f [unfolded eq]
  have k5: "bd_class d < 5"
    using k by (simp add: AACE_CLASSES_def)
  have lk: "aace_lookup (aace_class r) = Inr ?c"
    using cl aace_lookup_key [OF k5] unfolding eq by simp
  from v have u: "unit_draw (bd_variance d)"
    "unit_draw (bd_labor d)" "unit_draw (bd_materials d)"
    "unit_draw (bd_equipment d)" "unit_draw (bd_subcontractor d)"
    "unit_draw (bd_overhead d)" "unit_draw (bd_profit d)"
    and w: "unit_draw (bd_contingency d)"
    by (simp_all add: valid_bid_draws_def)
  show "interval_from_class ties p r" if "0 \<le> base_cost_of p"
    using k5 u(1) that lk c(1-3) by (rule interval_properties)
  show "list_all (\<lambda>x. 0 \<le> x) (amounts r)" if "0 \<le> base_cost_of p"
    using k5 u c(3-9) that by (rule amounts_properties(1))
  show "list_all (\<lambda>x. 0 < x) (amounts r)" if "1031/5000 \<le> base_cost_of p"
    using k5 u c(3-9) that by (rule amounts_properties(2))
  show "3 \<le> contingency_percent r"
    unfolding c(10) using k5 w by (rule contingency_at_least_3)
qed

lemma single_checks:
  assumes nm: "\<not> ed_mode ed < PROGRESSIVE_ESTIMATE_RATE"
    and v: "valid_estimate_draws estimators ed"
  shows "\<exists>rows. project_estimates p estimators ed ties = Inr rows \<and>
           (0 \<le> base_cost_of p \<longrightarrow> list_all (interval_from_class ties p) rows) \<and>
           (0 \<le> base_cost_of p \<longrightarrow> list_all (\<lambda>r. list_all (\<lambda>x. 0 \<le> x) (amounts r)) rows) \<and>
           (1031/5000 \<le> base_cost_of p \<longrightarrow> list_all (\<lambda>r. list_all (\<lambda>x. 0 < x) (amounts r)) rows) \<and>
           list_all (\<lambda>r. 3 \<le> contingency_percent r) rows"
proof -
  from single_rows [OF nm v, of p ties]
  obtain rows where g: "project_estimates p estimators ed ties = Inr rows"
    and len: "length rows = length (ed_sample ed)"
    and row: "\<And>i. i < length rows \<Longrightarrow>
      single_estimate p (estimators ! (ed_sample ed ! i)) (ed_bids ed i) ties = Inr (rows ! i)"
    by blast
  have vb: "valid_bid_draws (ed_bids ed i)" if "i < length rows" for i
    using v nm that unfolding len by (rule valid_bid_draws_nth)
  have k: "bd_class (ed_bids ed i) < length AACE_CLASSES" if "i < length rows" for i
    using vb [OF that] by (simp add: valid_bid_draws_def)
  have me: "bd_method (ed_bids ed i) < length ESTIMATION_METHODS" if "i < length rows" for i
    using vb [OF that] by (simp add: valid_bid_draws_def)
  note ch = single_row_checks [OF k me vb row]
  have a: "0 \<le> base_cost_of p \<longrightarrow> list_all (interval_from_class ties p) rows"
    unfolding list_all_length using ch(1) by blast
  have b: "0 \<le> base_cost_of p \<longrightarrow> list_all (\<lambda>r. list_all (\<lambda>x. 0 \<le> x) (amounts r)) rows"
    unfolding list_all_length [of _ rows] using ch(2) by blast
  have c: "1031/5000 \<le> base_cost_of p \<longrightarrow> list_all (\<lambda>r. list_all (\<lambda>x. 0 < x) (amounts r)) rows"
    unfolding list_all_length [of _ rows] using ch(3) by blast
  have d: "list_all (\<lambda>r. 3 \<le> contingency_percent r) rows"
    unfolding list_all_length using ch(4) by blast
  from g a b c d show ?thesis
    by (intro exI [of _ rows] conjI) assumption+
qed

lemma project_estimates_checks:
  assumes v: "valid_estimate_draws estimators ed"
  shows "\<exists>rows. project_estimates p estimators ed ties = Inr rows \<and>
           (0 \<le> base_cost_of p \<longrightarrow> list_all (interval_from_class ties p) rows) \<and>
           (0 \<le> base_cost_of p \<longrightarrow> list_all (\<lambda>r. list_all (\<lambda>x. 0 \<le> x) (amounts r)) rows) \<and>
           (1031/5000 \<le> base_cost_of p \<longrightarrow> list_all (\<lambda>r. list_all (\<lambda>x. 0 < x) (amounts r)) rows) \<and>
           list_all (\<lambda>r. 3 \<le> contingency_percent r) rows"
proof (cases "ed_mode ed < PROGRESSIVE_ESTIMATE_RATE")
  case True
  with v have "valid_prog_draws estimators (ed_progressive ed)"
    by (simp add: valid_estimate_draws_def)
  from progressive_checks [OF this, of p ties] show ?thesis
    using True by (simp only: project_estimates_def if_True)
next
  case False
  then show ?thesis
    using v by (rule single_checks)
qed

section \<open>Intervals and point estimates\<close>

lemma valid_estimate_draws_demo: "valid_estimate_draws demo_estimators demo_estimate_draws"
  by (simp add: valid_estimate_draws_def demo_estimators_def demo_estimate_draws_def
      PROGRESSIVE_ESTIMATE_RATE_def unit_draw_def valid_bid_draws_def demo_bid_def
      AACE_CLASSES_def ESTIMATION_METHODS_def list_all_iff)

lemma valid_project_draws_houston: "valid_project_draws demo_businesses houston_project_draws"
  by (simp add: valid_project_draws_def demo_businesses_def demo_project_draws_def
      houston_project_draws_def MAJOR_CITIES_def)

lemma valid_project_draws_cents: "valid_project_draws demo_businesses cents_project_draws"
  by (simp add: valid_project_draws_def demo_businesses_def demo_project_draws_def
      cents_project_draws_def MAJOR_CITIES_def)

lemma interval_at_million:
  assumes "interval_from_class ties p r" and "base_cost_of p = 1000000"
  shows "(aace_class r = ''class_5'' \<longrightarrow>
            confidence_interval_low r = 500000 \<and> confidence_interval_high r = 2000000) \<and>
         (aace_class r = ''class_1'' \<longrightarrow>
            confidence_interval_low r = 900000 \<and> confidence_interval_high r = 1150000)"
proof -
  have l5: "aace_lookup ''class_5'' = Inr (snd (AACE_CLASSES ! 0))"
    and l1: "aace_lookup ''class_1'' = Inr (snd (AACE_CLASSES ! 4))"
    by (simp_all add: aace_lookup_def AACE_CLASSES_def)
  have v: "confidence_low (snd (AACE_CLASSES ! 0)) = -50"
    "confidence_high (snd (AACE_CLASSES ! 0)) = 100"
    "confidence_low (snd (AACE_CLASSES ! 4)) = -10"
    "confidence_high (snd (AACE_CLASSES ! 4)) = 15"
    by (simp_all add: AACE_CLASSES_def)
  have r: "py_round (1000000 * (1 + real_of_int (-50) / 100)) 2 ties = 500000"
    "py_round (1000000 * (1 + real_of_int 100 / 100)) 2 ties = 2000000"
    "py_round (1000000 * (1 + real_of_int (-10) / 100)) 2 ties = 900000"
    "py_round (1000000 * (1 + real_of_int 15 / 100)) 2 ties = 1150000"
    by (simp_all add: py_round_def round_nearest_def)
  have "confidence_interval_low r = 500000 \<and> confidence_interval_high r = 2000000"
    if "aace_class r = ''class_5''"
    using assms(1) unfolding interval_from_class_def that l5 sum.case assms(2) v r by blast
  moreover have "confidence_interval_low r = 900000 \<and> confidence_interval_high r = 1150000"
    if "aace_class r = ''class_1''"
    using assms(1) unfolding interval_from_class_def that l1 sum.case assms(2) v r by blast
  ultimately show ?thesis
    by blast
qed

lemma generate_project_half_cent:
  "generate_project demo_businesses half_cent_project_draws ties = Inr half_cent_project"
proof -
  have c: "choice demo_businesses (pj_business half_cent_project_draws)
      = Inr \<lparr>business_id = ''b-1''\<rparr>"
    "choice MAJOR_CITIES (pj_city half_cent_project_draws) = Inr (''Houston'', ''TX'')"
    using major_city_3
    by (simp_all add: choice_def demo_businesses_def demo_project_draws_def
        half_cent_project_draws_def)
  show ?thesis
    unfolding generate_project_def c sum.case prod.case multiplier_TX Let_def
    by (simp add: demo_project_draws_def half_cent_project_draws_def half_cent_project_def
        houston_project_def py_round_def round_nearest_def)
qed

lemma valid_project_draws_half_cent:
  "valid_project_draws demo_businesses half_cent_project_draws"
  by (simp add: valid_project_draws_def demo_businesses_def demo_project_draws_def
      half_cent_project_draws_def MAJOR_CITIES_def)

lemma valid_estimate_draws_half_cent:
  "valid_estimate_draws demo_estimators half_cent_estimate_draws"
  by (simp add: valid_estimate_draws_def demo_estimators_def demo_estimate_draws_def
      half_cent_estimate_draws_def
      PROGRESSIVE_ESTIMATE_RATE_def unit_draw_def valid_bid_draws_def demo_bid_def
      AACE_CLASSES_def ESTIMATION_METHODS_def list_all_iff)

lemma map_length_2:
  assumes "length xs = 2"
  shows "map f xs = [f (xs ! 0), f (xs ! 1)]"
proof -
  from assms obtain a b where "xs = [a, b]"
    by (cases xs; cases "tl xs") auto
  then show ?thesis
    by simp
qed

lemma single_estimate_interval:
  assumes "bd_class d < length AACE_CLASSES" and "bd_method d < length ESTIMATION_METHODS"
    and "single_estimate p e d ties = Inr r"
  shows "aace_class r = fst (AACE_CLASSES ! bd_class d)"
    and "confidence_interval_low r =
      py_round (base_cost_of p *
        (1 + real_of_int (confidence_low (snd (AACE_CLASSES ! bd_class d))) / 100)) 2 ties"
    and "confidence_interval_high r =
      py_round (base_cost_of p *
        (1 + real_of_int (confidence_high (snd (AACE_CLASSES ! bd_class d))) / 100)) 2 ties"
  using single_estimate_row [OF assms(1,2), of p e ties] assms(3) by auto

lemma half_cent_rows:
  assumes "project_estimates half_cent_project demo_estimators half_cent_estimate_draws
      ties_as_stored = Inr rows"
  shows "map aace_class rows = [''class_2'', ''class_1'']"
    and "map confidence_interval_low rows = [850000.09, 900000.09]"
    and "map confidence_interval_high rows = [1200000.12, 1150000.11]"
proof -
  have nm: "\<not> ed_mode half_cent_estimate_draws < PROGRESSIVE_ESTIMATE_RATE"
    by (simp add: half_cent_estimate_draws_def demo_estimate_draws_def
        PROGRESSIVE_ESTIMATE_RATE_def)
  from single_rows [OF nm valid_estimate_draws_half_cent, of half_cent_project ties_as_stored]
    assms
  have l: "length rows = length (ed_sample half_cent_estimate_draws)"
    and row: "\<And>i. i < length rows \<Longrightarrow>
      single_estimate half_cent_project
        (demo_estimators ! (ed_sample half_cent_estimate_draws ! i))
        (ed_bids half_cent_estimate_draws i) ties_as_stored = Inr (rows ! i)"
    by auto
  have l2: "length rows = 2"
    using l by (simp add: half_cent_estimate_draws_def demo_estimate_draws_def)
  have b: "base_cost_of half_cent_project = 1000000.10"
    by (simp add: base_cost_of_def half_cent_project_def houston_project_def)
  have d0: "bd_class (ed_bids half_cent_estimate_draws 0) = 3"
    and d1: "bd_class (ed_bids half_cent_estimate_draws 1) = 4"
    and me: "bd_method (ed_bids half_cent_estimate_draws i) < length ESTIMATION_METHODS" for i
    by (simp_all add: half_cent_estimate_draws_def demo_estimate_draws_def demo_bid_def
        ESTIMATION_METHODS_def)
  have k0: "bd_class (ed_bids half_cent_estimate_draws 0) < length AACE_CLASSES"
    and k1: "bd_class (ed_bids half_cent_estimate_draws 1) < length AACE_CLASSES"
    unfolding d0 d1 by (simp_all add: AACE_CLASSES_def)
  have r0: "0 < length rows" and r1: "1 < length rows"
    using l2 by simp_all
  note i0 = single_estimate_interval [OF k0 me row [OF r0], unfolded d0 b]
  note i1 = single_estimate_interval [OF k1 me row [OF r1], unfolded d1 b]
  have c0: "aace_class (rows ! 0) = ''class_2''"
    using i0(1) by (simp add: AACE_CLASSES_def)
  have c1: "aace_class (rows ! 1) = ''class_1''"
    using i1(1) by (simp add: AACE_CLASSES_def)
  have lo0: "confidence_interval_low (rows ! 0) = 850000.09"
    unfolding i0(2)
    by (simp add: AACE_CLASSES_def py_round_def round_nearest_def ties_as_stored_def)
  have lo1: "confidence_interval_low (rows ! 1) = 900000.09"
    unfolding i1(2)
    by (simp add: AACE_CLASSES_def py_round_def round_nearest_def ties_as_stored_def)
  have hi0: "confidence_interval_high (rows ! 0) = 1200000.12"
    unfolding i0(3)
    by (simp add: AACE_CLASSES_def py_round_def round_nearest_def ties_as_stored_def)
  have hi1: "confidence_interval_high (rows ! 1) = 1150000.11"
    unfolding i1(3)
    by (simp add: AACE_CLASSES_def py_round_def round_nearest_def ties_as_stored_def)
  show "map aace_class rows = [''class_2'', ''class_1'']"
    unfolding map_length_2 [OF l2] c0 c1 by (rule refl)
  show "map confidence_interval_low rows = [850000.09, 900000.09]"
    unfolding map_length_2 [OF l2] lo0 lo1 by (rule refl)
  show "map confidence_interval_high rows = [1200000.12, 1150000.11]"
    unfolding map_length_2 [OF l2] hi0 hi1 by (rule refl)
qed

text \<open>
  Claim C6, amended. For every row generated for a generated project, in the
  progressive branch or in the independent-bids branch, the bounds of the confidence
  interval are the base cost of the project times \<open>1 + confidence_low / 100\<close> and
  times \<open>1 + confidence_high / 100\<close> of the class of the row, each rounded to two
  decimals: the stored bound is the cent nearest to the product, and a product that
  is exactly a half cent goes up or down as \<open>ties\<close> says, for every \<open>ties\<close>. The
  bounds depend on the class and the base cost only, not on the sampled variance, and
  the point estimate lies between them. For a base cost of 1,000,000 a row of class 5
  has the interval [500,000, 2,000,000] and a row of class 1 the interval
  [900,000, 1,150,000]. For a base cost of 1,000,000.10, with the directions of the two
  doubles, a row of class 2 has the interval [850,000.09, 1,200,000.12] and a row of
  class 1 the interval [900,000.09, 1,150,000.11].
\<close>

theorem estimate_interval_from_class:
  assumes "valid_project_draws businesses d" and "valid_estimate_draws estimators ed"
  shows "\<exists>project rows. generate_project businesses d ties = Inr project \<and>
           project_estimates project estimators ed ties = Inr rows \<and>
           list_all (interval_from_class ties project) rows \<and>
           (base_cost_of project = 1000000 \<longrightarrow>
              list_all (\<lambda>r.
                (aace_class r = ''class_5'' \<longrightarrow>
                   confidence_interval_low r = 500000 \<and> confidence_interval_high r = 2000000) \<and>
                (aace_class r = ''class_1'' \<longrightarrow>
                   confidence_interval_low r = 900000 \<and> confidence_interval_high r = 1150000))
                rows)"
proof -
  from generate_project_succeeds [OF assms(1), of ties]
  obtain p where g: "generate_project businesses d ties = Inr p"
    by blast
  have b: "0 \<le> base_cost_of p"
    using assms(1) g by (rule generated_base_cost_nonneg)
  from project_estimates_checks [OF assms(2), of p ties]
  obtain rows where r: "project_estimates p estimators ed ties = Inr rows"
    and i: "0 \<le> base_cost_of p \<longrightarrow> list_all (interval_from_class ties p) rows"
    by (elim exE conjE)
  from i b have a: "list_all (interval_from_class ties p) rows"
    by (rule mp)
  have m: "base_cost_of p = 1000000 \<longrightarrow>
      list_all (\<lambda>r.
        (aace_class r = ''class_5'' \<longrightarrow>
           confidence_interval_low r = 500000 \<and> confidence_interval_high r = 2000000) \<and>
        (aace_class r = ''class_1'' \<longrightarrow>
           confidence_interval_low r = 900000 \<and> confidence_interval_high r = 1150000)) rows"
  proof
    assume h: "base_cost_of p = 1000000"
    show "list_all (\<lambda>r.
        (aace_class r = ''class_5'' \<longrightarrow>
           confidence_interval_low r = 500000 \<and> confidence_interval_high r = 2000000) \<and>
        (aace_class r = ''class_1'' \<longrightarrow>
           confidence_interval_low r = 900000 \<and> confidence_interval_high r = 1150000)) rows"
      unfolding list_all_iff
    proof
      fix r assume "r \<in> set rows"
      with a have "interval_from_class ties p r"
        by (simp add: list_all_iff)
      then show "(aace_class r = ''class_5'' \<longrightarrow>
           confidence_interval_low r = 500000 \<and> confidence_interval_high r = 2000000) \<and>
        (aace_class r = ''class_1'' \<longrightarrow>
           confidence_interval_low r = 900000 \<and> confidence_interval_high r = 1150000)"
        using h by (rule interval_at_million)
    qed
  qed
  from g r a m show ?thesis
    by (intro exI [of _ p] exI [of _ rows] conjI) assumption+
qed

theorem estimate_interval_from_class_witness:
  "valid_project_draws demo_businesses houston_project_draws \<and>
   valid_estimate_draws demo_estimators demo_estimate_draws \<and>
   base_cost_of houston_project = 1000000 \<and>
   (\<exists>rows. project_estimates houston_project demo_estimators demo_estimate_draws ties_to_even
        = Inr rows \<and>
      list_all (interval_from_class ties_to_even houston_project) rows) \<and>
   valid_project_draws demo_businesses half_cent_project_draws \<and>
   valid_estimate_draws demo_estimators half_cent_estimate_draws \<and>
   (\<exists>rows. project_estimates half_cent_project demo_estimators half_cent_estimate_draws
        ties_as_stored = Inr rows \<and>
      list_all (interval_from_class ties_as_stored half_cent_project) rows \<and>
      map aace_class rows = [''class_2'', ''class_1''] \<and>
      map confidence_interval_low rows = [850000.09, 900000.09] \<and>
      map confidence_interval_high rows = [1200000.12, 1150000.11])"
proof -
  from estimate_interval_from_class [OF valid_project_draws_houston valid_estimate_draws_demo,
      of ties_to_even]
  obtain p rows where g: "generate_project demo_businesses houston_project_draws ties_to_even = Inr p"
    and r: "project_estimates p demo_estimators demo_estimate_draws ties_to_even = Inr rows"
    and a: "list_all (interval_from_class ties_to_even p) rows"
    by (elim exE conjE)
  from g have p: "p = houston_project"
    unfolding generate_project_houston by simp
  have b: "base_cost_of houston_project = 1000000"
    by (simp add: base_cost_of_def houston_project_def)
  note r' = r [unfolded p] and a' = a [unfolded p]
  from r' a'
  have first: "\<exists>rows. project_estimates houston_project demo_estimators demo_estimate_draws
        ties_to_even = Inr rows \<and>
      list_all (interval_from_class ties_to_even houston_project) rows"
    by (intro exI [of _ rows] conjI) assumption+
  from estimate_interval_from_class
    [OF valid_project_draws_half_cent valid_estimate_draws_half_cent, of ties_as_stored]
  obtain q rows2
    where g2: "generate_project demo_businesses half_cent_project_draws ties_as_stored = Inr q"
      and r2: "project_estimates q demo_estimators half_cent_estimate_draws ties_as_stored
        = Inr rows2"
      and a2: "list_all (interval_from_class ties_as_stored q) rows2"
    by (elim exE conjE)
  from g2 have q: "q = half_cent_project"
    unfolding generate_project_half_cent by simp
  note r2' = r2 [unfolded q] and a2' = a2 [unfolded q]
  note h = half_cent_rows [OF r2']
  from r2' a2' h
  have second: "\<exists>rows. project_estimates half_cent_project demo_estimators
        half_cent_estimate_draws ties_as_stored = Inr rows \<and>
      list_all (interval_from_class ties_as_stored half_cent_project) rows \<and>
      map aace_class rows = [''class_2'', ''class_1''] \<and>
      map confidence_interval_low rows = [850000.09, 900000.09] \<and>
      map confidence_interval_high rows = [1200000.12, 1150000.11]"
    by (intro exI [of _ rows2] conjI) assumption+
  from valid_project_draws_houston valid_estimate_draws_demo b first
    valid_project_draws_half_cent valid_estimate_draws_half_cent second
  show ?thesis
    by (intro conjI) assumption+
qed

lemma map_length_3:
  assumes "length xs = 3"
  shows "map f xs = [f (xs ! 0), f (xs ! 1), f (xs ! 2)]"
proof -
  from assms obtain a b c where "xs = [a, b, c]"
    by (cases xs; cases "tl xs"; cases "tl (tl xs)") auto
  then show ?thesis
    by simp
qed

lemma demo_progressive_rows:
  "\<exists>rows. generate_progressive_estimates p demo_estimators demo_prog_draws ties = Inr rows \<and>
     length rows = 3"
proof -
  have e: "pd_estimator demo_prog_draws < length demo_estimators"
    by (simp add: demo_prog_draws_def demo_estimators_def)
  from generate_progressive_rows [OF e, of p ties] show ?thesis
    by (auto simp: demo_prog_draws_def)
qed

text \<open>
  Claim C6 as stated, with bounds equal to the unrounded products, fails: for the
  project with budget bounds 1,080,000.01 and 1,620,000.02 the base cost is
  1,350,000.015, the product for class 5 is 675,000.0075, and the stored lower bound
  is 675,000.01.
\<close>

theorem interval_low_is_rounded:
  "valid_project_draws demo_businesses cents_project_draws \<and>
   valid_prog_draws demo_estimators demo_prog_draws \<and>
   generate_project demo_businesses cents_project_draws ties_to_even = Inr cents_project \<and>
   map_sum id (map aace_class)
     (generate_progressive_estimates cents_project demo_estimators demo_prog_draws ties_to_even)
     = Inr [''class_5'', ''class_4'', ''class_3''] \<and>
   map_sum id (map confidence_interval_low)
     (generate_progressive_estimates cents_project demo_estimators demo_prog_draws ties_to_even)
     = Inr [675000.01, 945000.01, 1080000.01] \<and>
   map_sum id confidence_low (aace_lookup ''class_5'') = Inr (-50) \<and>
   base_cost_of cents_project * (1 + real_of_int (-50) / 100) = 675000.0075 \<and>
   (675000.01 :: real) \<noteq> 675000.0075"
proof -
  have e: "pd_estimator demo_prog_draws < length demo_estimators"
    by (simp add: demo_prog_draws_def demo_estimators_def)
  from demo_progressive_rows [of cents_project ties_to_even]
  obtain rows
    where g: "generate_progressive_estimates cents_project demo_estimators demo_prog_draws ties_to_even
        = Inr rows"
      and l: "length rows = 3"
    by blast
  from progressive_classes [OF valid_prog_draws_demo, of cents_project ties_to_even] g
  have "map aace_class rows = take (length rows) class_progression"
    by auto
  then have cl: "map aace_class rows = [''class_5'', ''class_4'', ''class_3'']"
    unfolding l by (simp add: class_progression_def)
  have b: "base_cost_of cents_project = 1350000.015"
    by (simp add: base_cost_of_def cents_project_def houston_project_def)
  have "confidence_interval_low (rows ! 0) =
      py_round (base_cost_of cents_project *
        (1 + real_of_int (confidence_low (snd (AACE_CLASSES ! min 0 4))) / 100)) 2 ties_to_even"
    by (rule progressive_rows_columns(2) [OF e g]) (simp add: l)
  also have "\<dots> = 675000.01"
    by (simp add: b AACE_CLASSES_def py_round_def round_nearest_def)
  finally have l0: "confidence_interval_low (rows ! 0) = 675000.01" .
  have "confidence_interval_low (rows ! 1) =
      py_round (base_cost_of cents_project *
        (1 + real_of_int (confidence_low (snd (AACE_CLASSES ! min 1 4))) / 100)) 2 ties_to_even"
    by (rule progressive_rows_columns(2) [OF e g]) (simp add: l)
  also have "\<dots> = 945000.01"
    by (simp add: b AACE_CLASSES_def py_round_def round_nearest_def)
  finally have l1: "confidence_interval_low (rows ! 1) = 945000.01" .
  have "confidence_interval_low (rows ! 2) =
      py_round (base_cost_of cents_project *
        (1 + real_of_int (confidence_low (snd (AACE_CLASSES ! min 2 4))) / 100)) 2 ties_to_even"
    by (rule progressive_rows_columns(2) [OF e g]) (simp add: l)
  also have "\<dots> = 1080000.01"
    by (simp add: b AACE_CLASSES_def py_round_def round_nearest_def)
  finally have l2: "confidence_interval_low (rows ! 2) = 1080000.01" .
  have lo: "map confidence_interval_low rows = [675000.01, 945000.01, 1080000.01]"
    unfolding map_length_3 [OF l] l0 l1 l2 by (rule refl)
  have k: "map_sum id confidence_low (aace_lookup ''class_5'') = Inr (-50)"
    by (simp add: aace_lookup_def AACE_CLASSES_def)
  have x: "base_cost_of cents_project * (1 + real_of_int (-50) / 100) = 675000.0075"
    unfolding b by simp
  have ne: "(675000.01 :: real) \<noteq> 675000.0075"
    by simp
  show ?thesis
    unfolding g using valid_project_draws_cents valid_prog_draws_demo generate_project_cents
      cl lo k x ne by simp
qed

section \<open>Signs of the amounts\<close>

lemma multipliers_at_least: "list_all (\<lambda>(k, m). 0.88 \<le> m) REGIONAL_COST_MULTIPLIERS"
  by (simp add: REGIONAL_COST_MULTIPLIERS_def)

lemma get_regional_multiplier_ge: "0.88 \<le> get_regional_multiplier state"
proof (cases "map_of REGIONAL_COST_MULTIPLIERS state")
  case None
  then show ?thesis
    by (simp add: get_regional_multiplier_def)
next
  case (Some m)
  then have "(state, m) \<in> set REGIONAL_COST_MULTIPLIERS"
    by (rule map_of_SomeD)
  with multipliers_at_least have "0.88 \<le> m"
    by (auto simp: list_all_iff)
  with Some show ?thesis
    by (simp add: get_regional_multiplier_def)
qed

lemma generated_budget_bounds:
  assumes "generator_project_draws businesses d" and "generate_project businesses d ties = Inr p"
  shows "0 < estimated_budget_min p" and "0 < estimated_budget_max p"
    and "1031/5000 \<le> base_cost_of p"
proof -
  from assms(1) have v: "pj_business d < length businesses" "pj_city d < length MAJOR_CITIES"
    and b: "6/25 \<le> pj_lognormal d"
    by (simp_all add: generator_project_draws_def valid_project_draws_def LOGNORMAL_MIN_def)
  from generate_project_row [OF v, of ties] assms(2)
  have m: "regional_cost_multiplier p = get_regional_multiplier (project_state p)"
    and lo: "estimated_budget_min p =
      py_round (pj_lognormal d * regional_cost_multiplier p * 0.8) 2 ties"
    and hi: "estimated_budget_max p =
      py_round (pj_lognormal d * regional_cost_multiplier p * 1.2) 2 ties"
    by auto
  let ?a = "pj_lognormal d * regional_cost_multiplier p"
  have mg: "0.88 \<le> regional_cost_multiplier p"
    unfolding m by (rule get_regional_multiplier_ge)
  have b0: "0 \<le> pj_lognormal d"
    using b by simp
  have "(6/25) * 0.88 \<le> pj_lognormal d * regional_cost_multiplier p"
    using b mg b0 by (rule mult_mono) simp
  then have a: "132/625 \<le> ?a"
    by simp
  from a have "1/200 < ?a * 0.8"
    by simp
  then show "0 < estimated_budget_min p"
    unfolding lo by (rule py_round_pos)
  from a have "1/200 < ?a * 1.2"
    by simp
  then show "0 < estimated_budget_max p"
    unfolding hi by (rule py_round_pos)
  have el: "\<bar>estimated_budget_min p - 0.8 * ?a\<bar> \<le> 1/200"
    unfolding lo mult.commute [of ?a] by (rule py_round_error)
  have eh: "\<bar>estimated_budget_max p - 1.2 * ?a\<bar> \<le> 1/200"
    unfolding hi mult.commute [of ?a] by (rule py_round_error)
  from el eh have "\<bar>(estimated_budget_min p + estimated_budget_max p) / 2 - ?a\<bar> \<le> 1/200"
    by (rule midpoint_error)
  then have "?a - 1/200 \<le> (estimated_budget_min p + estimated_budget_max p) / 2"
    unfolding abs_le_iff by (elim conjE) (simp add: field_simps)
  with a show "1031/5000 \<le> base_cost_of p"
    unfolding base_cost_of_def by simp
qed

lemma generator_project_draws_demo: "generator_project_draws demo_businesses demo_project_draws"
  using valid_project_draws_demo
  by (simp add: generator_project_draws_def LOGNORMAL_MIN_def demo_project_draws_def)

text \<open>
  Claim C9. For every project that the generator can produce and every row generated
  for it, in either branch, the stored budget bounds, the stored total cost and the
  six stored cost components are strictly positive, and so is the stored contingency,
  which is at least 3 (the smallest nominal contingency is 5.0 and the jitter is at
  least -2). Nothing is clamped: the signs come from the products alone, and the
  smallest log-normal draw keeps every product above half a cent.
\<close>

theorem generated_amounts_positive:
  assumes "generator_project_draws businesses d" and "valid_estimate_draws estimators ed"
  shows "\<exists>project rows. generate_project businesses d ties = Inr project \<and>
           project_estimates project estimators ed ties = Inr rows \<and>
           0 < estimated_budget_min project \<and> 0 < estimated_budget_max project \<and>
           list_all (\<lambda>r. list_all (\<lambda>x. 0 < x) (amounts r)) rows \<and>
           list_all (\<lambda>r. 3 \<le> contingency_percent r) rows \<and>
           list_all (\<lambda>r. 0 < contingency_percent r) rows"
proof -
  from assms(1) have v: "valid_project_draws businesses d"
    by (simp add: generator_project_draws_def)
  from generate_project_succeeds [OF v, of ties]
  obtain p where g: "generate_project businesses d ties = Inr p"
    by blast
  note bb = generated_budget_bounds [OF assms(1) g]
  from project_estimates_checks [OF assms(2), of p ties]
  obtain rows where r: "project_estimates p estimators ed ties = Inr rows"
    and ps: "1031/5000 \<le> base_cost_of p \<longrightarrow>
      list_all (\<lambda>r. list_all (\<lambda>x. 0 < x) (amounts r)) rows"
    and ct: "list_all (\<lambda>r. 3 \<le> contingency_percent r) rows"
    by (elim exE conjE)
  from ps bb(3) have am: "list_all (\<lambda>r. list_all (\<lambda>x. 0 < x) (amounts r)) rows"
    by (rule mp)
  have cp: "list_all (\<lambda>r. 0 < contingency_percent r) rows"
    using ct unfolding list_all_iff by fastforce
  from g r bb(1) bb(2) am ct cp show ?thesis
    by (intro exI [of _ p] exI [of _ rows] conjI) assumption+
qed

theorem generated_amounts_positive_witness:
  "generator_project_draws demo_businesses demo_project_draws \<and>
   valid_estimate_draws demo_estimators demo_estimate_draws \<and>
   0 < estimated_budget_min demo_project \<and> 0 < estimated_budget_max demo_project \<and>
   (\<exists>rows. project_estimates demo_project demo_estimators demo_estimate_draws ties_to_even
        = Inr rows \<and>
      list_all (\<lambda>r. list_all (\<lambda>x. 0 < x) (amounts r)) rows \<and>
      list_all (\<lambda>r. 0 < contingency_percent r) rows)"
proof -
  from generated_amounts_positive [OF generator_project_draws_demo valid_estimate_draws_demo,
      of ties_to_even]
  obtain p rows where g: "generate_project demo_businesses demo_project_draws ties_to_even = Inr p"
    and r: "project_estimates p demo_estimators demo_estimate_draws ties_to_even = Inr rows"
    and b1: "0 < estimated_budget_min p" and b2: "0 < estimated_budget_max p"
    and a: "list_all (\<lambda>r. list_all (\<lambda>x. 0 < x) (amounts r)) rows"
    and c: "list_all (\<lambda>r. 0 < contingency_percent r) rows"
    by (elim exE conjE)
  from g have p: "p = demo_project"
    unfolding generate_project_demo by simp
  note r' = r [unfolded p] and b1' = b1 [unfolded p] and b2' = b2 [unfolded p]
  from generator_project_draws_demo valid_estimate_draws_demo b1' b2' r' a c show ?thesis
    by (intro conjI exI [of _ rows]) assumption+
qed

section \<open>Reproducibility\<close>

text \<open>
  Claim C1 says that the generated tables are a function of the seed alone. Between
  two runs the draws of the seeded generators agree and the draws of
  \<^verbatim>\<open>random.choice\<close>, \<^verbatim>\<open>random.randint\<close> and \<^verbatim>\<open>random.uniform\<close>, which start from
  operating-system entropy, need not. Two admissible project draws with the same
  seeded part and different positions of \<^verbatim>\<open>random.choice(MAJOR_CITIES)\<close> give
  different projects, and for the same project and estimators two admissible sets of
  draws of \<^verbatim>\<open>generate_progressive_estimates\<close> give different rows.
\<close>

theorem unseeded_draws_change_output:
  "valid_project_draws demo_businesses demo_project_draws \<and>
   valid_project_draws demo_businesses houston_project_draws \<and>
   seeded_project_draws houston_project_draws = seeded_project_draws demo_project_draws \<and>
   generate_project demo_businesses houston_project_draws ties_to_even
     \<noteq> generate_project demo_businesses demo_project_draws ties_to_even \<and>
   valid_prog_draws demo_estimators demo_prog_draws \<and>
   valid_prog_draws demo_estimators late_then_early_draws \<and>
   generate_progressive_estimates demo_project demo_estimators late_then_early_draws ties_to_even
     \<noteq> generate_progressive_estimates demo_project demo_estimators demo_prog_draws ties_to_even"
proof -
  have a: "seeded_project_draws houston_project_draws = seeded_project_draws demo_project_draws"
    by (simp add: seeded_project_draws_def houston_project_draws_def)
  have "houston_project \<noteq> demo_project"
    by (simp add: houston_project_def demo_project_def)
  then have b: "generate_project demo_businesses houston_project_draws ties_to_even
      \<noteq> generate_project demo_businesses demo_project_draws ties_to_even"
    unfolding generate_project_houston generate_project_demo by simp
  have e1: "pd_estimator demo_prog_draws < length demo_estimators"
    and e2: "pd_estimator late_then_early_draws < length demo_estimators"
    by (simp_all add: demo_prog_draws_def late_then_early_draws_def demo_estimators_def)
  from progressive_rows_status [OF e1, of demo_project ties_to_even]
  obtain rows1
    where g1: "generate_progressive_estimates demo_project demo_estimators demo_prog_draws ties_to_even
        = Inr rows1"
      and l1: "length rows1 = nat (pd_num_estimates demo_prog_draws)"
      and d1: "map submitted_date rows1 =
        map (\<lambda>i. add_days (posted_date demo_project)
                   (int i * sd_days (pd_steps demo_prog_draws i))) [0..<length rows1]"
    by (elim exE conjE)
  from progressive_rows_status [OF e2, of demo_project ties_to_even]
  obtain rows2
    where g2: "generate_progressive_estimates demo_project demo_estimators late_then_early_draws ties_to_even
        = Inr rows2"
      and l2: "length rows2 = nat (pd_num_estimates late_then_early_draws)"
      and d2: "map submitted_date rows2 =
        map (\<lambda>i. add_days (posted_date demo_project)
                   (int i * sd_days (pd_steps late_then_early_draws i))) [0..<length rows2]"
    by (elim exE conjE)
  have n1: "length rows1 = 3" and n2: "length rows2 = 3"
    using l1 l2 by (simp_all add: demo_prog_draws_def late_then_early_draws_def)
  have "map (ordinal \<circ> submitted_date) rows1 = [739038, 739052, 739066]"
    unfolding map_map [symmetric] d1 n1
    by (simp add: upt_rec demo_prog_draws_def demo_step_def demo_project_def add_days_def)
  moreover have "map (ordinal \<circ> submitted_date) rows2 = [739038, 739059, 739052]"
    unfolding map_map [symmetric] d2 n2
    by (simp add: upt_rec late_then_early_draws_def demo_step_def demo_project_def add_days_def)
  ultimately have "rows2 \<noteq> rows1"
    by auto
  then have c: "generate_progressive_estimates demo_project demo_estimators late_then_early_draws ties_to_even
      \<noteq> generate_progressive_estimates demo_project demo_estimators demo_prog_draws ties_to_even"
    unfolding g1 g2 by simp
  from valid_project_draws_demo valid_project_draws_houston a b valid_prog_draws_demo
    valid_late_then_early c
  show ?thesis
    by (intro conjI) assumption+
qed

end
